theory Spec2Isabelle
  imports Main "HOL-Library.Word"
begin

section \<open>Outcomes of Go calls\<close>

text \<open>
  A Go call either returns its results or panics. A returned \<open>error\<close> is an ordinary
  value (\<open>fmt.Errorf\<close> builds one from a message); the functions of the package return
  it beside the SQL text, as the pair \<open>(string, error)\<close>, where \<open>None\<close> is Go's \<open>nil\<close>.
\<close>

datatype error = Error string

datatype 'a outcome = Return 'a | Panic string

type_synonym sql_result = "(string \<times> error option) outcome"

section \<open>String literals: \<open>needsEscape\<close> and \<open>quoteString\<close>\<close>

text \<open>
  Go strings are byte sequences; \<open>char\<close> is a byte. The table \<open>needsEscape\<close> of
  expression.go has 256 entries, seven of them 1 and all others 0.
\<close>

definition needsEscape :: "char \<Rightarrow> nat" where
  "needsEscape b =
     (if b = CHR 0x00 then 1
      else if b = CHR 0x0A then 1
      else if b = CHR 0x0D then 1
      else if b = CHR 0x5C then 1
      else if b = CHR 0x27 then 1
      else if b = CHR 0x22 then 1
      else if b = CHR 0x1A then 1
      else 0)"

text \<open>A store into a byte slice; Go panics when the index is out of range.\<close>

definition store :: "char list \<Rightarrow> nat \<Rightarrow> char \<Rightarrow> char list outcome" where
  "store buf n c =
     (if n < length buf then Return (buf[n := c]) else Panic ''index out of range'')"

text \<open>
  The loop of \<open>quoteString\<close> over the bytes of \<open>s\<close> that are still to be copied:
  it always writes a backslash at \<open>n\<close>, advances \<open>n\<close> by the table entry, and then
  writes the byte itself (over the backslash when the entry is 0).
\<close>

fun quoteLoop :: "string \<Rightarrow> char list \<Rightarrow> nat \<Rightarrow> (char list \<times> nat) outcome" where
  "quoteLoop [] buf n = Return (buf, n)"
| "quoteLoop (b # bs) buf n =
     (case store buf n (CHR 0x5C) of
        Panic m \<Rightarrow> Panic m
      | Return buf1 \<Rightarrow>
          (case store buf1 (n + needsEscape b) b of
             Panic m \<Rightarrow> Panic m
           | Return buf2 \<Rightarrow> quoteLoop bs buf2 (n + needsEscape b + 1)))"

definition quoteString :: "string \<Rightarrow> string outcome" where
  "quoteString s =
     (if s = [] then Return [CHR 0x27, CHR 0x27]
      else
        (case store (replicate (length s * 2 + 2) (CHR 0x00)) 0 (CHR 0x27) of
           Panic m \<Rightarrow> Panic m
         | Return buf0 \<Rightarrow>
             (case quoteLoop s buf0 1 of
                Panic m \<Rightarrow> Panic m
              | Return (buf1, n) \<Rightarrow>
                  (case store buf1 n (CHR 0x27) of
                     Panic m \<Rightarrow> Panic m
                   | Return buf2 \<Rightarrow> Return (take (n + 1) buf2)))))"

subsection \<open>The escaping rule as the specification words it\<close>

text \<open>
  The bytes the rule names, the escaped form of one byte, the quoted literal, and the
  inverse reading of a literal: a backslash stands for the byte that follows it.
\<close>

definition spec_escaped_bytes :: "char set" where
  "spec_escaped_bytes =
     {CHR 0x00, CHR 0x0A, CHR 0x0D, CHR 0x5C, CHR 0x27, CHR 0x22, CHR 0x1A}"

definition spec_escape_byte :: "char \<Rightarrow> string" where
  "spec_escape_byte b = (if b \<in> spec_escaped_bytes then [CHR 0x5C, b] else [b])"

definition spec_quote :: "string \<Rightarrow> string" where
  "spec_quote s = CHR 0x27 # concat (map spec_escape_byte s) @ [CHR 0x27]"

fun spec_unescape :: "string \<Rightarrow> string" where
  "spec_unescape [] = []"
| "spec_unescape [c] = [c]"
| "spec_unescape (c # d # cs) =
     (if c = CHR 0x5C then d # spec_unescape cs else c # spec_unescape (d # cs))"

definition spec_unquote :: "string \<Rightarrow> string option" where
  "spec_unquote t =
     (if 2 \<le> length t \<and> hd t = CHR 0x27 \<and> last t = CHR 0x27
      then Some (spec_unescape (butlast (tl t))) else None)"

section \<open>Decimal text of integers\<close>

text \<open>
  \<open>strconv.Itoa\<close>, \<open>strconv.FormatInt\<close> and \<open>strconv.FormatUint\<close> in base 10: the digits
  without leading zeros, after a minus sign for a negative number.
\<close>

definition digitChar :: "nat \<Rightarrow> char" where
  "digitChar d = ''0123456789'' ! d"

fun FormatUint :: "nat \<Rightarrow> string" where
  "FormatUint n =
     (if n < 10 then [digitChar n] else FormatUint (n div 10) @ [digitChar (n mod 10)])"

declare FormatUint.simps [simp del]

definition Itoa :: "int \<Rightarrow> string" where
  "Itoa i = (if i < 0 then CHR ''-'' # FormatUint (nat (- i)) else FormatUint (nat i))"

section \<open>Expression nodes\<close>

text \<open>
  The rendering context. The database handle, the tables and the join are defined
  outside the expression engine, which only passes the context on.
\<close>

typedecl database
typedecl Table
typedecl join

record scope =
  Database :: "database option"
  Tables :: "Table list"
  lastJoin :: "join option"

type_synonym priority = "8 word"

text \<open>
  The struct \<open>expression\<close>. The zero value of a Go string is the empty string and the
  zero value of a func is \<open>nil\<close> (\<open>None\<close>); calling a nil func panics.
\<close>

record expression =
  sql :: string
  builder :: "(scope \<Rightarrow> sql_result) option"
  priority :: priority
  isTrue :: bool
  isFalse :: bool
  isBool :: bool

definition zeroExpression :: expression where
  "zeroExpression =
     \<lparr>sql = [], builder = None, priority = 0, isTrue = False, isFalse = False, isBool = False\<rparr>"

definition staticExpression :: "string \<Rightarrow> priority \<Rightarrow> bool \<Rightarrow> expression" where
  "staticExpression s p b = zeroExpression\<lparr>sql := s, priority := p, isBool := b\<rparr>"

definition True' :: expression where
  "True' = zeroExpression\<lparr>sql := ''1'', isTrue := True, isBool := True\<rparr>"

definition False' :: expression where
  "False' = zeroExpression\<lparr>sql := ''0'', isFalse := True, isBool := True\<rparr>"

definition Raw :: "string \<Rightarrow> expression" where
  "Raw s = zeroExpression\<lparr>sql := s, priority := 99\<rparr>"

definition GetSQL :: "expression \<Rightarrow> scope \<Rightarrow> sql_result" where
  "GetSQL e sc =
     (if sql e \<noteq> [] then Return (sql e, None)
      else (case builder e of
              None \<Rightarrow> Panic ''invalid memory address or nil pointer dereference''
            | Some f \<Rightarrow> f sc))"

definition getOperatorPriority :: "expression \<Rightarrow> priority" where
  "getOperatorPriority e = priority e"

section \<open>Values handed to the marshaller\<close>

text \<open>
  An \<open>interface{}\<close> value, by the case of \<open>getSQL\<close> that takes it. The first group are
  the cases of its type switch; a collaborator that the expression engine only knows
  through an interface is given by what that interface returns. \<open>VReflected\<close> is
  every other value, classified by its \<open>reflect.Kind\<close>:
  \<^item> \<open>VOtherExpression\<close>: an \<open>Expression\<close> that is not the struct \<open>expression\<close>, by its
    \<open>GetSQL\<close> and its \<open>getOperatorPriority\<close>;
  \<^item> \<open>VAssignment\<close>, \<open>VSelectFinal\<close>, \<open>VUpdateFinal\<close>, \<open>VTable\<close>: by their \<open>GetSQL\<close>;
  \<^item> \<open>VCaseExpression\<close>: by the expression its \<open>End()\<close> returns;
  \<^item> \<open>VTime\<close>: \<open>None\<close> for the zero time, else the text \<open>Format\<close> gives;
    \<open>VTimePtr\<close>: a \<open>*time.Time\<close>, \<open>None\<close> for the nil pointer;
  \<^item> \<open>RFloat\<close>: a float, by the text \<open>strconv.FormatFloat\<close> gives;
  \<^item> \<open>RSlice\<close>: an array or slice, by its elements (a nil element of an interface
    type is \<open>VNil\<close>); \<open>RPtr\<close>: a pointer, \<open>None\<close> when nil;
  \<^item> \<open>RStringer\<close>: a value of another kind with a \<open>String()\<close> method, by its result;
    \<open>ROther\<close>: a value of another kind without one, by the name of its kind.
\<close>

datatype go_value =
    VNil
  | VInt int
  | VString string
  | VExpression expression
  | VOtherExpression "scope \<Rightarrow> sql_result" priority
  | VAssignment "scope \<Rightarrow> sql_result"
  | VSelectFinal sql_result
  | VUpdateFinal sql_result
  | VTable "scope \<Rightarrow> string"
  | VCaseExpression expression
  | VTime "string option"
  | VTimePtr "string option option"
  | VReflected reflected
and reflected =
    RBool bool
  | RInt int
  | RUint nat
  | RFloat string
  | RString string
  | RSlice "go_value list"
  | RPtr "go_value option"
  | RStringer string
  | ROther string

type_synonym marshal_result = "(string \<times> priority \<times> error option) outcome"

definition quoted :: "string \<Rightarrow> marshal_result" where
  "quoted s = (case quoteString s of Panic m \<Rightarrow> Panic m | Return q \<Rightarrow> Return (q, 0, None))"

text \<open>
  \<open>getSQL\<close>, \<open>getSQLFromReflectValue\<close> and the loop of \<open>commaValues\<close> call each other.
  The named results \<open>sql\<close>, \<open>priority\<close> and \<open>err\<close> of \<open>getSQL\<close> start as \<open>""\<close>, 0 and
  \<open>nil\<close>, and a case returns whatever it has assigned: the text and the error of a
  collaborator are passed on as they come.

  The pointer loop of \<open>getSQLFromReflectValue\<close> is its recursion on \<open>RPtr\<close>: a nil
  pointer ends it with \<open>NULL\<close>, a pointer to a pointer goes round again, and anything
  else is marshalled by \<open>getSQL\<close>. \<open>commaLoop\<close> is the loop of \<open>commaValues\<close>, with
  the text so far and the index.
\<close>

text \<open>
  Modelled from the spec: \<open>getSQLFromWhatever\<close>, which the loop of \<open>commaValues\<close> in
  common.go calls on each item, is not in the sources. The specification has one
  Value Marshaller, with the contract \<open>(text, precedence, error)\<close>, and its comma
  lists marshal each element with it; in expression.go that marshaller is \<open>getSQL\<close>,
  so the loop calls \<open>getSQL\<close>.
\<close>

fun getSQL :: "scope \<Rightarrow> go_value \<Rightarrow> marshal_result"
  and getSQLFromReflectValue :: "scope \<Rightarrow> reflected \<Rightarrow> marshal_result"
  and commaLoop :: "scope \<Rightarrow> string \<Rightarrow> nat \<Rightarrow> go_value list \<Rightarrow> sql_result"
where
  "getSQL sc VNil = Return (''NULL'', 0, None)"
| "getSQL sc (VInt i) = Return (Itoa i, 0, None)"
| "getSQL sc (VString s) = quoted s"
| "getSQL sc (VExpression e) =
     (case GetSQL e sc of
        Panic m \<Rightarrow> Panic m
      | Return (s, err) \<Rightarrow> Return (s, getOperatorPriority e, err))"
| "getSQL sc (VOtherExpression f p) =
     (case f sc of
        Panic m \<Rightarrow> Panic m
      | Return (s, err) \<Rightarrow> Return (s, p, err))"
| "getSQL sc (VAssignment f) =
     (case f sc of
        Panic m \<Rightarrow> Panic m
      | Return (s, err) \<Rightarrow> Return (s, 0, err))"
| "getSQL sc (VSelectFinal r) =
     (case r of
        Panic m \<Rightarrow> Panic m
      | Return (s, Some err) \<Rightarrow> Return (s, 0, Some err)
      | Return (s, None) \<Rightarrow> Return (''('' @ s @ '')'', 0, None))"
| "getSQL sc (VUpdateFinal r) =
     (case r of
        Panic m \<Rightarrow> Panic m
      | Return (s, err) \<Rightarrow> Return (s, 0, err))"
| "getSQL sc (VTable f) = Return (f sc, 0, None)"
| "getSQL sc (VCaseExpression e) =
     (case GetSQL e sc of
        Panic m \<Rightarrow> Panic m
      | Return (s, err) \<Rightarrow> Return (s, 0, err))"
| "getSQL sc (VTime t) =
     (case t of
        None \<Rightarrow> Return (''NULL'', 0, None)
      | Some tmStr \<Rightarrow> quoted tmStr)"
| "getSQL sc (VTimePtr p) =
     (case p of
        None \<Rightarrow> Return (''NULL'', 0, None)
      | Some None \<Rightarrow> Return (''NULL'', 0, None)
      | Some (Some tmStr) \<Rightarrow> quoted tmStr)"
| "getSQL sc (VReflected v) = getSQLFromReflectValue sc v"
| "getSQLFromReflectValue sc (RPtr p) =
     (case p of
        None \<Rightarrow> Return (''NULL'', 0, None)
      | Some v \<Rightarrow>
          (case v of
             VReflected (RPtr q) \<Rightarrow> getSQLFromReflectValue sc (RPtr q)
           | _ \<Rightarrow> getSQL sc v))"
| "getSQLFromReflectValue sc (RBool b) = Return (if b then ''1'' else ''0'', 0, None)"
| "getSQLFromReflectValue sc (RInt i) = Return (Itoa i, 0, None)"
| "getSQLFromReflectValue sc (RUint n) = Return (FormatUint n, 0, None)"
| "getSQLFromReflectValue sc (RFloat text) = Return (text, 0, None)"
| "getSQLFromReflectValue sc (RString s) = quoted s"
| "getSQLFromReflectValue sc (RSlice values) =
     (case commaLoop sc [] 0 values of
        Panic m \<Rightarrow> Panic m
      | Return (s, Some err) \<Rightarrow> Return (s, 0, Some err)
      | Return (s, None) \<Rightarrow> Return (''('' @ s @ '')'', 0, None))"
| "getSQLFromReflectValue sc (RStringer s) = quoted s"
| "getSQLFromReflectValue sc (ROther kind) =
     Return ([], 0, Some (Error (''invalid type '' @ kind)))"
| "commaLoop sc acc i [] = Return (acc, None)"
| "commaLoop sc acc i (item # items) =
     (let acc1 = (if 0 < i then acc @ '', '' else acc)
      in case getSQL sc item of
           Panic m \<Rightarrow> Panic m
         | Return (itemSql, _, Some err) \<Rightarrow> Return ([], Some err)
         | Return (itemSql, _, None) \<Rightarrow> commaLoop sc (acc1 @ itemSql) (i + 1) items)"

definition commaValues :: "scope \<Rightarrow> go_value list \<Rightarrow> sql_result" where
  "commaValues sc values = commaLoop sc [] 0 values"

section \<open>Operators\<close>

text \<open>
  \<open>binaryOperation\<close> returns a node whose builder renders both operands when it is
  called; the parentheses depend on the priority of the left node and on the priority
  the marshaller reports for the right value.
\<close>

definition parenthesize :: "bool \<Rightarrow> string \<Rightarrow> string" where
  "parenthesize should s = (if should then ''('' @ s @ '')'' else s)"

definition binaryOperation ::
  "expression \<Rightarrow> string \<Rightarrow> go_value \<Rightarrow> priority \<Rightarrow> bool \<Rightarrow> expression" where
  "binaryOperation e operator v p b =
     zeroExpression\<lparr>
       builder := Some (\<lambda>sc.
         case GetSQL e sc of
           Panic m \<Rightarrow> Panic m
         | Return (leftSql, Some err) \<Rightarrow> Return ([], Some err)
         | Return (leftSql, None) \<Rightarrow>
             (case getSQL sc v of
                Panic m \<Rightarrow> Panic m
              | Return (rightSql, rightPriority, Some err) \<Rightarrow> Return ([], Some err)
              | Return (rightSql, rightPriority, None) \<Rightarrow>
                  Return (parenthesize (priority e > p) leftSql @ '' '' @ operator @ '' ''
                            @ parenthesize (rightPriority \<ge> p) rightSql, None))),
       priority := p, isBool := b\<rparr>"

definition prefixSuffixExpression ::
  "expression \<Rightarrow> string \<Rightarrow> string \<Rightarrow> priority \<Rightarrow> bool \<Rightarrow> expression" where
  "prefixSuffixExpression e prefix suffix p b =
     (if sql e \<noteq> [] then
        zeroExpression\<lparr>sql := prefix @ sql e @ suffix, priority := p, isBool := b\<rparr>
      else
        zeroExpression\<lparr>
          builder := Some (\<lambda>sc.
            case GetSQL e sc of
              Panic m \<Rightarrow> Panic m
            | Return (exprSql, Some err) \<Rightarrow> Return ([], Some err)
            | Return (exprSql, None) \<Rightarrow>
                Return (prefix @ parenthesize (priority e > p) exprSql @ suffix, None)),
          priority := p, isBool := b\<rparr>)"

definition NotEquals :: "expression \<Rightarrow> go_value \<Rightarrow> expression" where
  "NotEquals e other = binaryOperation e ''<>'' other 11 True"

definition Equals :: "expression \<Rightarrow> go_value \<Rightarrow> expression" where
  "Equals e other = binaryOperation e ''='' other 11 True"

definition LessThan :: "expression \<Rightarrow> go_value \<Rightarrow> expression" where
  "LessThan e other = binaryOperation e ''<'' other 11 True"

definition LessThanOrEquals :: "expression \<Rightarrow> go_value \<Rightarrow> expression" where
  "LessThanOrEquals e other = binaryOperation e ''<='' other 11 True"

definition GreaterThan :: "expression \<Rightarrow> go_value \<Rightarrow> expression" where
  "GreaterThan e other = binaryOperation e ''>'' other 11 True"

definition GreaterThanOrEquals :: "expression \<Rightarrow> go_value \<Rightarrow> expression" where
  "GreaterThanOrEquals e other = binaryOperation e ''>='' other 11 True"

text \<open>
  \<open>toBooleanExpression\<close> asserts the struct type \<open>expression\<close>; \<open>None\<close> is the nil
  interface it returns for every other value and for an unclassified node.
\<close>

definition toBooleanExpression :: "go_value \<Rightarrow> expression option" where
  "toBooleanExpression v =
     (case v of
        VExpression e \<Rightarrow>
          (if isTrue e then Some True'
           else if isFalse e then Some False'
           else if isBool e then Some e
           else None)
      | _ \<Rightarrow> None)"

definition And :: "expression \<Rightarrow> go_value \<Rightarrow> expression" where
  "And e other =
     (if isFalse e then e
      else (case (if isTrue e then toBooleanExpression other else None) of
              Some exp \<Rightarrow> exp
            | None \<Rightarrow> binaryOperation e ''AND'' other 14 True))"

definition Or :: "expression \<Rightarrow> go_value \<Rightarrow> expression" where
  "Or e other =
     (if isTrue e then e
      else (case (if isFalse e then toBooleanExpression other else None) of
              Some exp \<Rightarrow> exp
            | None \<Rightarrow> binaryOperation e ''OR'' other 16 True))"

definition Xor :: "expression \<Rightarrow> go_value \<Rightarrow> expression" where
  "Xor e other = binaryOperation e ''XOR'' other 15 True"

definition Add :: "expression \<Rightarrow> go_value \<Rightarrow> expression" where
  "Add e other = binaryOperation e ''+'' other 7 False"

definition Sub :: "expression \<Rightarrow> go_value \<Rightarrow> expression" where
  "Sub e other = binaryOperation e ''-'' other 7 False"

definition Mul :: "expression \<Rightarrow> go_value \<Rightarrow> expression" where
  "Mul e other = binaryOperation e ''*'' other 6 False"

definition Div :: "expression \<Rightarrow> go_value \<Rightarrow> expression" where
  "Div e other = binaryOperation e ''/'' other 6 False"

definition IntDiv :: "expression \<Rightarrow> go_value \<Rightarrow> expression" where
  "IntDiv e other = binaryOperation e ''DIV'' other 6 False"

definition Mod :: "expression \<Rightarrow> go_value \<Rightarrow> expression" where
  "Mod e other = binaryOperation e ''%'' other 6 False"

definition Like :: "expression \<Rightarrow> go_value \<Rightarrow> expression" where
  "Like e other = binaryOperation e ''LIKE'' other 11 True"

definition IsNull :: "expression \<Rightarrow> expression" where
  "IsNull e = prefixSuffixExpression e [] '' IS NULL'' 11 True"

definition Not' :: "expression \<Rightarrow> expression" where
  "Not' e =
     (if isTrue e then False'
      else if isFalse e then True'
      else prefixSuffixExpression e ''NOT '' [] 13 True)"

definition IsNotNull :: "expression \<Rightarrow> expression" where
  "IsNotNull e = prefixSuffixExpression e [] '' IS NOT NULL'' 11 True"

definition IsTrue :: "expression \<Rightarrow> expression" where
  "IsTrue e = prefixSuffixExpression e [] '' IS TRUE'' 11 True"

definition IsNotTrue :: "expression \<Rightarrow> expression" where
  "IsNotTrue e = prefixSuffixExpression e [] '' IS NOT TRUE'' 11 True"

definition IsFalse :: "expression \<Rightarrow> expression" where
  "IsFalse e = prefixSuffixExpression e [] '' IS FALSE'' 11 True"

definition IsNotFalse :: "expression \<Rightarrow> expression" where
  "IsNotFalse e = prefixSuffixExpression e [] '' IS NOT FALSE'' 11 True"

section \<open>Function calls and aliases\<close>

text \<open>
  \<open>function\<close> of common.go (a keyword here, hence the prime) and \<open>As\<close>: nodes with a
  builder only, and with priority 0.
\<close>

definition function' :: "string \<Rightarrow> go_value list \<Rightarrow> expression" where
  "function' name args =
     zeroExpression\<lparr>
       builder := Some (\<lambda>sc.
         case commaValues sc args of
           Panic m \<Rightarrow> Panic m
         | Return (valuesSql, Some err) \<Rightarrow> Return ([], Some err)
         | Return (valuesSql, None) \<Rightarrow> Return (name @ ''('' @ valuesSql @ '')'', None))\<rparr>"

definition As :: "expression \<Rightarrow> string \<Rightarrow> expression" where
  "As e name =
     zeroExpression\<lparr>
       builder := Some (\<lambda>sc.
         case GetSQL e sc of
           Panic m \<Rightarrow> Panic m
         | Return (expressionSql, Some err) \<Rightarrow> Return ([], Some err)
         | Return (expressionSql, None) \<Rightarrow> Return (expressionSql @ '' AS '' @ name, None))\<rparr>"

section \<open>Set membership and ranges\<close>

text \<open>
  \<open>expandSliceValue\<close> works on \<open>reflect.Value\<close>s. \<open>reflect.ValueOf(nil)\<close> and the
  \<open>Elem()\<close> of a nil pointer or of a nil interface are the zero \<open>Value\<close>: its kind is
  \<open>Invalid\<close>, which is the \<open>default\<close> case of the switch, and \<open>Interface()\<close> panics on
  it. An element of interface kind is expanded through its \<open>Elem()\<close>, the value held.
  The collaborators that are known through an interface only are taken to be values of
  struct kind, which the \<open>default\<close> case appends as they are.
\<close>

definition zeroValuePanic :: string where
  "zeroValuePanic = ''reflect: call of reflect.Value.Interface on zero Value''"

fun expandSliceValue :: "go_value \<Rightarrow> go_value list outcome"
  and expandSliceLoop :: "go_value list \<Rightarrow> go_value list \<Rightarrow> go_value list outcome"
where
  "expandSliceValue (VReflected (RSlice elems)) = expandSliceLoop [] elems"
| "expandSliceValue (VReflected (RPtr p)) =
     (case p of
        None \<Rightarrow> Panic zeroValuePanic
      | Some v \<Rightarrow> expandSliceValue v)"
| "expandSliceValue (VTimePtr p) =
     (case p of
        None \<Rightarrow> Panic zeroValuePanic
      | Some t \<Rightarrow> Return [VTime t])"
| "expandSliceValue VNil = Panic zeroValuePanic"
| "expandSliceValue (VInt i) = Return [VInt i]"
| "expandSliceValue (VString s) = Return [VString s]"
| "expandSliceValue (VExpression e) = Return [VExpression e]"
| "expandSliceValue (VOtherExpression f p) = Return [VOtherExpression f p]"
| "expandSliceValue (VAssignment f) = Return [VAssignment f]"
| "expandSliceValue (VSelectFinal r) = Return [VSelectFinal r]"
| "expandSliceValue (VUpdateFinal r) = Return [VUpdateFinal r]"
| "expandSliceValue (VTable f) = Return [VTable f]"
| "expandSliceValue (VCaseExpression e) = Return [VCaseExpression e]"
| "expandSliceValue (VTime t) = Return [VTime t]"
| "expandSliceValue (VReflected (RBool b)) = Return [VReflected (RBool b)]"
| "expandSliceValue (VReflected (RInt i)) = Return [VReflected (RInt i)]"
| "expandSliceValue (VReflected (RUint n)) = Return [VReflected (RUint n)]"
| "expandSliceValue (VReflected (RFloat text)) = Return [VReflected (RFloat text)]"
| "expandSliceValue (VReflected (RString s)) = Return [VReflected (RString s)]"
| "expandSliceValue (VReflected (RStringer s)) = Return [VReflected (RStringer s)]"
| "expandSliceValue (VReflected (ROther kind)) = Return [VReflected (ROther kind)]"
| "expandSliceLoop result [] = Return result"
| "expandSliceLoop result (v # vs) =
     (case expandSliceValue v of
        Panic m \<Rightarrow> Panic m
      | Return r \<Rightarrow> expandSliceLoop (result @ r) vs)"

fun expandSliceValuesLoop :: "go_value list \<Rightarrow> go_value list \<Rightarrow> go_value list outcome" where
  "expandSliceValuesLoop result [] = Return result"
| "expandSliceValuesLoop result (v # vs) =
     (case expandSliceValue v of
        Panic m \<Rightarrow> Panic m
      | Return r \<Rightarrow> expandSliceValuesLoop (result @ r) vs)"

definition expandSliceValues :: "go_value list \<Rightarrow> go_value list outcome" where
  "expandSliceValues values = expandSliceValuesLoop [] values"

text \<open>
  The builder of \<open>In\<close> and \<open>NotIn\<close>. With one value that is not a finished select it
  renders \<open>single(value)\<close>; otherwise it renders the values, then the expression, and
  joins the two texts.
\<close>

definition getBuilder ::
  "expression \<Rightarrow> (go_value \<Rightarrow> expression) \<Rightarrow> (string \<Rightarrow> string \<Rightarrow> string) \<Rightarrow>
   go_value list \<Rightarrow> scope \<Rightarrow> sql_result" where
  "getBuilder e single joiner values sc =
     (let joined = (\<lambda>valuesSql.
            case GetSQL e sc of
              Panic m \<Rightarrow> Panic m
            | Return (exprSql, Some err) \<Rightarrow> Return ([], Some err)
            | Return (exprSql, None) \<Rightarrow> Return (joiner exprSql valuesSql, None))
      in if length values = 1 then
           (case values ! 0 of
              VSelectFinal selectStatus \<Rightarrow>
                (case selectStatus of
                   Panic m \<Rightarrow> Panic m
                 | Return (valuesSql, Some err) \<Rightarrow> Return ([], Some err)
                 | Return (valuesSql, None) \<Rightarrow> joined valuesSql)
            | value \<Rightarrow> GetSQL (single value) sc)
         else
           (case commaValues sc values of
              Panic m \<Rightarrow> Panic m
            | Return (valuesSql, Some err) \<Rightarrow> Return ([], Some err)
            | Return (valuesSql, None) \<Rightarrow> joined valuesSql))"

definition In :: "expression \<Rightarrow> go_value list \<Rightarrow> expression outcome" where
  "In e values =
     (case expandSliceValues values of
        Panic m \<Rightarrow> Panic m
      | Return vs \<Rightarrow>
          (if length vs = 0 then Return False'
           else Return (zeroExpression\<lparr>
                  builder := Some (getBuilder e (Equals e)
                    (\<lambda>exprSql valuesSql. exprSql @ '' IN ('' @ valuesSql @ '')'') vs),
                  priority := 11\<rparr>)))"

definition NotIn :: "expression \<Rightarrow> go_value list \<Rightarrow> expression outcome" where
  "NotIn e values =
     (case expandSliceValues values of
        Panic m \<Rightarrow> Panic m
      | Return vs \<Rightarrow>
          (if length vs = 0 then Return True'
           else Return (zeroExpression\<lparr>
                  builder := Some (getBuilder e (NotEquals e)
                    (\<lambda>exprSql valuesSql. exprSql @ '' NOT IN ('' @ valuesSql @ '')'') vs),
                  priority := 11\<rparr>)))"

definition buildBetween :: "expression \<Rightarrow> string \<Rightarrow> go_value \<Rightarrow> go_value \<Rightarrow> expression" where
  "buildBetween e operator lo hi =
     zeroExpression\<lparr>
       builder := Some (\<lambda>sc.
         case GetSQL e sc of
           Panic m \<Rightarrow> Panic m
         | Return (exprSql, Some err) \<Rightarrow> Return ([], Some err)
         | Return (exprSql, None) \<Rightarrow>
             (case getSQL sc lo of
                Panic m \<Rightarrow> Panic m
              | Return (minSql, _, Some err) \<Rightarrow> Return ([], Some err)
              | Return (minSql, _, None) \<Rightarrow>
                  (case getSQL sc hi of
                     Panic m \<Rightarrow> Panic m
                   | Return (maxSql, _, Some err) \<Rightarrow> Return ([], Some err)
                   | Return (maxSql, _, None) \<Rightarrow>
                       Return (exprSql @ operator @ minSql @ '' AND '' @ maxSql, None)))),
       priority := 12\<rparr>"

definition Between :: "expression \<Rightarrow> go_value \<Rightarrow> go_value \<Rightarrow> expression" where
  "Between e lo hi = buildBetween e '' BETWEEN '' lo hi"

definition NotBetween :: "expression \<Rightarrow> go_value \<Rightarrow> go_value \<Rightarrow> expression" where
  "NotBetween e lo hi = buildBetween e '' NOT BETWEEN '' lo hi"

section \<open>The nodes the package hands out\<close>

text \<open>
  The fields of \<open>expression\<close> are not exported, so a program only holds nodes that the
  functions of the package have built: the constants, \<open>Raw\<close>, \<open>staticExpression\<close>,
  and the results of the methods, which all end in \<open>binaryOperation\<close>,
  \<open>prefixSuffixExpression\<close>, \<open>function\<close>, \<open>buildBetween\<close>, \<open>In\<close>, \<open>NotIn\<close>, \<open>And\<close>,
  \<open>Or\<close>, \<open>Not\<close> or \<open>As\<close> (the string helpers and the aggregates are calls of
  \<open>function\<close> and of the comparisons).
\<close>

inductive produced :: "expression \<Rightarrow> bool" where
  p_True: "produced True'"
| p_False: "produced False'"
| p_Raw: "produced (Raw s)"
| p_static: "produced (staticExpression s p b)"
| p_binary: "produced e \<Longrightarrow> produced (binaryOperation e operator v p b)"
| p_prefixSuffix: "produced e \<Longrightarrow> produced (prefixSuffixExpression e prefix suffix p b)"
| p_function: "produced (function' name args)"
| p_As: "produced e \<Longrightarrow> produced (As e name)"
| p_between: "produced e \<Longrightarrow> produced (buildBetween e operator lo hi)"
| p_In: "produced e \<Longrightarrow> In e values = Return r \<Longrightarrow> produced r"
| p_NotIn: "produced e \<Longrightarrow> NotIn e values = Return r \<Longrightarrow> produced r"
| p_Not: "produced e \<Longrightarrow> produced (Not' e)"
| p_And: "produced e \<Longrightarrow> produced x \<Longrightarrow> produced (And e (VExpression x))"
| p_And_value: "produced e \<Longrightarrow> toBooleanExpression other = None \<Longrightarrow> produced (And e other)"
| p_Or: "produced e \<Longrightarrow> produced x \<Longrightarrow> produced (Or e (VExpression x))"
| p_Or_value: "produced e \<Longrightarrow> toBooleanExpression other = None \<Longrightarrow> produced (Or e other)"

text \<open>The rendering context of a statement without tables, for concrete renderings.\<close>

definition noTables :: scope where
  "noTables = \<lparr>Database = None, Tables = [], lastJoin = None\<rparr>"

section \<open>Properties of \<open>quoteString\<close>\<close>

lemma needsEscape_le: "needsEscape b \<le> 1"
  by (simp add: needsEscape_def)

lemma spec_escape_byte_table:
  "spec_escape_byte b = (if needsEscape b = 1 then [CHR 0x5C, b] else [b])"
  by (simp add: spec_escape_byte_def spec_escaped_bytes_def needsEscape_def)

lemma take_store_same:
  "n < length buf \<Longrightarrow> take (Suc n) (buf[n := c]) = take n buf @ [c]"
  by (simp add: take_Suc_conv_app_nth)

lemma quoteLoop_copies:
  "n + 2 * length bs < length buf \<Longrightarrow>
   \<exists>buf' n'. quoteLoop bs buf n = Return (buf', n') \<and> length buf' = length buf \<and>
     n' \<le> n + 2 * length bs \<and>
     take n' buf' = take n buf @ concat (map spec_escape_byte bs)"
proof (induction bs arbitrary: buf n)
  case Nil
  then show ?case by simp
next
  case (Cons b bs)
  let ?k = "needsEscape b"
  let ?buf2 = "buf[n := CHR 0x5C, n + ?k := b]"
  have k: "?k \<le> 1" by (rule needsEscape_le)
  have step: "quoteLoop (b # bs) buf n = quoteLoop bs ?buf2 (n + ?k + 1)"
    using Cons.prems k by (simp add: store_def)
  have room: "(n + ?k + 1) + 2 * length bs < length ?buf2"
    using Cons.prems k by simp
  from Cons.IH [OF room] obtain buf' n' where
    r: "quoteLoop bs ?buf2 (n + ?k + 1) = Return (buf', n')"
    and len: "length buf' = length ?buf2"
    and bound: "n' \<le> (n + ?k + 1) + 2 * length bs"
    and copied: "take n' buf' = take (n + ?k + 1) ?buf2 @ concat (map spec_escape_byte bs)"
    by blast
  have prefix: "take (n + ?k + 1) ?buf2 = take n buf @ spec_escape_byte b"
  proof (cases "?k = 1")
    case True
    have "take (Suc (Suc n)) (buf[n := CHR 0x5C, Suc n := b])
          = take (Suc n) (buf[n := CHR 0x5C]) @ [b]"
      using Cons.prems by (simp add: take_store_same)
    also have "\<dots> = take n buf @ [CHR 0x5C, b]"
      using Cons.prems by (simp add: take_store_same)
    finally show ?thesis using True by (simp add: spec_escape_byte_table)
  next
    case False
    with k have z: "?k = 0" by simp
    have "take (Suc n) (buf[n := b]) = take n buf @ [b]"
      using Cons.prems by (simp add: take_store_same)
    then show ?thesis using z by (simp add: spec_escape_byte_table)
  qed
  show ?case
    using step r len bound copied prefix k by simp
qed

lemma quoteString_returns: "quoteString s = Return (spec_quote s)"
proof (cases "s = []")
  case True
  then show ?thesis by (simp add: quoteString_def spec_quote_def)
next
  case False
  let ?buf0 = "(replicate (length s * 2 + 2) (CHR 0x00))[0 := CHR 0x27]"
  have room: "1 + 2 * length s < length ?buf0" by simp
  from quoteLoop_copies [OF room] obtain buf' n' where
    r: "quoteLoop s ?buf0 1 = Return (buf', n')"
    and len: "length buf' = length ?buf0"
    and bound: "n' \<le> 1 + 2 * length s"
    and copied: "take n' buf' = take 1 ?buf0 @ concat (map spec_escape_byte s)"
    by blast
  have n': "n' < length buf'" using len bound by simp
  have first: "take 1 ?buf0 = [CHR 0x27]"
    by (simp add: take_Suc_conv_app_nth)
  have "take (n' + 1) (buf'[n' := CHR 0x27]) = take n' buf' @ [CHR 0x27]"
    using n' by (simp add: take_store_same)
  then show ?thesis
    using False r n' copied first by (simp add: quoteString_def store_def spec_quote_def)
qed

lemma spec_unescape_plain:
  "c \<noteq> CHR 0x5C \<Longrightarrow> spec_unescape (c # cs) = c # spec_unescape cs"
  by (cases cs) simp_all

lemma spec_unescape_escape: "spec_unescape (concat (map spec_escape_byte s)) = s"
proof (induction s)
  case Nil
  then show ?case by simp
next
  case (Cons b s)
  show ?case
  proof (cases "b \<in> spec_escaped_bytes")
    case True
    then show ?thesis using Cons.IH by (simp add: spec_escape_byte_def)
  next
    case False
    then have "b \<noteq> CHR 0x5C" by (auto simp: spec_escaped_bytes_def)
    then show ?thesis using False Cons.IH
      by (simp add: spec_escape_byte_def spec_unescape_plain)
  qed
qed

lemma spec_unquote_quote: "spec_unquote (spec_quote s) = Some s"
  by (simp add: spec_unquote_def spec_quote_def spec_unescape_escape butlast_append)

text \<open>
  C1. For every string \<open>s\<close>, \<open>quoteString\<close> returns (it never panics) the bytes of
  \<open>s\<close> between two single quotes, where exactly the bytes NUL, newline, carriage
  return, backslash, single quote, double quote and 0x1A are each preceded by a
  backslash; the empty string gives two single quotes; and reading the literal back,
  taking each backslash as standing for the byte after it, gives \<open>s\<close> again.
\<close>

theorem quoteString_escapes_and_round_trips:
  "quoteString s =
     Return (CHR 0x27 #
       concat (map (\<lambda>b. if b \<in> {CHR 0x00, CHR 0x0A, CHR 0x0D, CHR 0x5C, CHR 0x27, CHR 0x22, CHR 0x1A}
                          then [CHR 0x5C, b] else [b]) s) @ [CHR 0x27])
   \<and> quoteString [] = Return [CHR 0x27, CHR 0x27]
   \<and> (\<exists>t. quoteString s = Return t \<and> spec_unquote t = Some s)"
proof -
  have shape: "spec_quote s =
     CHR 0x27 #
       concat (map (\<lambda>b. if b \<in> {CHR 0x00, CHR 0x0A, CHR 0x0D, CHR 0x5C, CHR 0x27, CHR 0x22, CHR 0x1A}
                          then [CHR 0x5C, b] else [b]) s) @ [CHR 0x27]"
    unfolding spec_quote_def spec_escape_byte_def spec_escaped_bytes_def by (rule refl)
  have empty: "quoteString [] = Return [CHR 0x27, CHR 0x27]"
    by (simp add: quoteString_def)
  have round_trip: "\<exists>t. quoteString s = Return t \<and> spec_unquote t = Some s"
    using quoteString_returns [of s] spec_unquote_quote [of s] by blast
  show ?thesis
    using quoteString_returns [of s] shape empty round_trip by simp
qed

section \<open>Rendering of the built nodes\<close>

lemma GetSQL_staticExpression: "s \<noteq> [] \<Longrightarrow> GetSQL (staticExpression s p b) sc = Return (s, None)"
  by (simp add: GetSQL_def staticExpression_def zeroExpression_def)

lemma GetSQL_Raw: "s \<noteq> [] \<Longrightarrow> GetSQL (Raw s) sc = Return (s, None)"
  by (simp add: GetSQL_def Raw_def zeroExpression_def)

lemma GetSQL_True': "GetSQL True' sc = Return (''1'', None)"
  by (simp add: GetSQL_def True'_def zeroExpression_def)

lemma GetSQL_False': "GetSQL False' sc = Return (''0'', None)"
  by (simp add: GetSQL_def False'_def zeroExpression_def)

lemma GetSQL_binaryOperation:
  "GetSQL (binaryOperation e operator v p b) sc =
     (case GetSQL e sc of
        Panic m \<Rightarrow> Panic m
      | Return (leftSql, Some err) \<Rightarrow> Return ([], Some err)
      | Return (leftSql, None) \<Rightarrow>
          (case getSQL sc v of
             Panic m \<Rightarrow> Panic m
           | Return (rightSql, rightPriority, Some err) \<Rightarrow> Return ([], Some err)
           | Return (rightSql, rightPriority, None) \<Rightarrow>
               Return (parenthesize (priority e > p) leftSql @ '' '' @ operator @ '' ''
                         @ parenthesize (rightPriority \<ge> p) rightSql, None)))"
  by (simp add: GetSQL_def binaryOperation_def zeroExpression_def)

lemma flags_binaryOperation:
  "sql (binaryOperation e operator v p b) = []"
  "priority (binaryOperation e operator v p b) = p"
  "isTrue (binaryOperation e operator v p b) = False"
  "isFalse (binaryOperation e operator v p b) = False"
  "isBool (binaryOperation e operator v p b) = b"
  by (simp_all add: binaryOperation_def zeroExpression_def)

lemma flags_staticExpression:
  "sql (staticExpression s p b) = s"
  "priority (staticExpression s p b) = p"
  "isTrue (staticExpression s p b) = False"
  "isFalse (staticExpression s p b) = False"
  "isBool (staticExpression s p b) = b"
  by (simp_all add: staticExpression_def zeroExpression_def)

lemma flags_Raw:
  "sql (Raw s) = s"
  "priority (Raw s) = 99"
  "isTrue (Raw s) = False"
  "isFalse (Raw s) = False"
  "isBool (Raw s) = False"
  by (simp_all add: Raw_def zeroExpression_def)

section \<open>Parentheses around the operands of a binary operator\<close>

text \<open>
  C2. When both operands render, the node \<open>binaryOperation\<close> builds with result
  priority \<open>p\<close> puts the left text in parentheses exactly when the priority of the
  left node is strictly greater than \<open>p\<close>, and the right text exactly when the priority
  the marshaller reports for the right value is greater than or equal to \<open>p\<close>. With
  \<open>a\<close>, \<open>b\<close>, \<open>c\<close> nodes of priority 0: \<open>a.Add(b).Mul(c)\<close> is \<open>(a + b) * c\<close>,
  \<open>a.Mul(b).Add(c)\<close> is \<open>a * b + c\<close> and \<open>a.Sub(b.Sub(c))\<close> is \<open>a - (b - c)\<close>.
\<close>

theorem binaryOperation_parenthesizes:
  assumes "GetSQL e sc = Return (leftSql, None)"
    and "getSQL sc v = Return (rightSql, rightPriority, None)"
  shows "GetSQL (binaryOperation e operator v p b) sc =
           Return ((if priority e > p then ''('' @ leftSql @ '')'' else leftSql)
                   @ '' '' @ operator @ '' '' @
                   (if rightPriority \<ge> p then ''('' @ rightSql @ '')'' else rightSql), None)
         \<and> GetSQL (Mul (Add (staticExpression ''a'' 0 False)
                              (VExpression (staticExpression ''b'' 0 False)))
                         (VExpression (staticExpression ''c'' 0 False))) sc
             = Return (''(a + b) * c'', None)
         \<and> GetSQL (Add (Mul (staticExpression ''a'' 0 False)
                              (VExpression (staticExpression ''b'' 0 False)))
                         (VExpression (staticExpression ''c'' 0 False))) sc
             = Return (''a * b + c'', None)
         \<and> GetSQL (Sub (staticExpression ''a'' 0 False)
                         (VExpression (Sub (staticExpression ''b'' 0 False)
                                           (VExpression (staticExpression ''c'' 0 False))))) sc
             = Return (''a - (b - c)'', None)"
proof -
  have rule: "GetSQL (binaryOperation e operator v p b) sc =
           Return ((if priority e > p then ''('' @ leftSql @ '')'' else leftSql)
                   @ '' '' @ operator @ '' '' @
                   (if rightPriority \<ge> p then ''('' @ rightSql @ '')'' else rightSql), None)"
    using assms by (simp add: GetSQL_binaryOperation parenthesize_def)
  have ab: "GetSQL (Add (staticExpression ''a'' 0 False)
                        (VExpression (staticExpression ''b'' 0 False))) sc = Return (''a + b'', None)"
    by (simp add: Add_def GetSQL_binaryOperation GetSQL_staticExpression flags_staticExpression
        getOperatorPriority_def parenthesize_def)
  have ex1: "GetSQL (Mul (Add (staticExpression ''a'' 0 False)
                              (VExpression (staticExpression ''b'' 0 False)))
                         (VExpression (staticExpression ''c'' 0 False))) sc
             = Return (''(a + b) * c'', None)"
    using ab
    by (simp add: Mul_def GetSQL_binaryOperation GetSQL_staticExpression flags_staticExpression
        getOperatorPriority_def parenthesize_def)
       (simp add: Add_def flags_binaryOperation)
  have mb: "GetSQL (Mul (staticExpression ''a'' 0 False)
                        (VExpression (staticExpression ''b'' 0 False))) sc = Return (''a * b'', None)"
    by (simp add: Mul_def GetSQL_binaryOperation GetSQL_staticExpression flags_staticExpression
        getOperatorPriority_def parenthesize_def)
  have ex2: "GetSQL (Add (Mul (staticExpression ''a'' 0 False)
                              (VExpression (staticExpression ''b'' 0 False)))
                         (VExpression (staticExpression ''c'' 0 False))) sc
             = Return (''a * b + c'', None)"
    using mb
    by (simp add: Add_def GetSQL_binaryOperation GetSQL_staticExpression flags_staticExpression
        getOperatorPriority_def parenthesize_def)
       (simp add: Mul_def flags_binaryOperation)
  have bc: "GetSQL (Sub (staticExpression ''b'' 0 False)
                        (VExpression (staticExpression ''c'' 0 False))) sc = Return (''b - c'', None)"
    by (simp add: Sub_def GetSQL_binaryOperation GetSQL_staticExpression flags_staticExpression
        getOperatorPriority_def parenthesize_def)
  have ex3: "GetSQL (Sub (staticExpression ''a'' 0 False)
                         (VExpression (Sub (staticExpression ''b'' 0 False)
                                           (VExpression (staticExpression ''c'' 0 False))))) sc
             = Return (''a - (b - c)'', None)"
    using bc
    by (simp add: GetSQL_binaryOperation [of _ _ "VExpression (Sub _ _)"] Sub_def [of "staticExpression ''a'' 0 False"]
         GetSQL_staticExpression flags_staticExpression
        getOperatorPriority_def parenthesize_def)
       (simp add: Sub_def flags_binaryOperation)
  show ?thesis using rule ex1 ex2 ex3 by blast
qed

theorem binaryOperation_parenthesizes_witness:
  "GetSQL (Raw ''x'') noTables = Return (''x'', None)
   \<and> getSQL noTables (VExpression (Raw ''y'')) = Return (''y'', 99, None)
   \<and> GetSQL (binaryOperation (Raw ''x'') ''+'' (VExpression (Raw ''y'')) 7 False) noTables
       = Return (''(x) + (y)'', None)"
proof -
  have l: "GetSQL (Raw ''x'') noTables = Return (''x'', None)"
    by (simp add: GetSQL_Raw)
  have r: "getSQL noTables (VExpression (Raw ''y'')) = Return (''y'', 99, None)"
    by (simp add: GetSQL_Raw getOperatorPriority_def flags_Raw)
  show ?thesis
    using l r binaryOperation_parenthesizes [OF l r, of "''+''" 7 False]
    by (simp add: flags_Raw)
qed

section \<open>Flags of the built nodes\<close>

lemma flags_True':
  "sql True' = ''1''" "priority True' = 0" "isTrue True'" "\<not> isFalse True'" "isBool True'"
  by (simp_all add: True'_def zeroExpression_def)

lemma flags_False':
  "sql False' = ''0''" "priority False' = 0" "\<not> isTrue False'" "isFalse False'" "isBool False'"
  by (simp_all add: False'_def zeroExpression_def)

lemma flags_prefixSuffixExpression:
  "priority (prefixSuffixExpression e prefix suffix p b) = p"
  "isTrue (prefixSuffixExpression e prefix suffix p b) = False"
  "isFalse (prefixSuffixExpression e prefix suffix p b) = False"
  "isBool (prefixSuffixExpression e prefix suffix p b) = b"
  by (simp_all add: prefixSuffixExpression_def zeroExpression_def)

lemma flags_function':
  "sql (function' name args) = []"
  "priority (function' name args) = 0"
  "isTrue (function' name args) = False"
  "isFalse (function' name args) = False"
  "isBool (function' name args) = False"
  by (simp_all add: function'_def zeroExpression_def)

lemma flags_As:
  "sql (As e name) = []"
  "priority (As e name) = 0"
  "isTrue (As e name) = False"
  "isFalse (As e name) = False"
  "isBool (As e name) = False"
  by (simp_all add: As_def zeroExpression_def)

lemma flags_buildBetween:
  "sql (buildBetween e operator lo hi) = []"
  "priority (buildBetween e operator lo hi) = 12"
  "isTrue (buildBetween e operator lo hi) = False"
  "isFalse (buildBetween e operator lo hi) = False"
  "isBool (buildBetween e operator lo hi) = False"
  by (simp_all add: buildBetween_def zeroExpression_def)

lemma In_cases:
  "In e values = Return r \<Longrightarrow>
   r = False' \<or> (sql r = [] \<and> builder r \<noteq> None \<and> priority r = 11 \<and> \<not> isTrue r \<and> \<not> isFalse r \<and> \<not> isBool r)"
  by (auto simp: In_def zeroExpression_def split: outcome.splits if_splits)

lemma NotIn_cases:
  "NotIn e values = Return r \<Longrightarrow>
   r = True' \<or> (sql r = [] \<and> builder r \<noteq> None \<and> priority r = 11 \<and> \<not> isTrue r \<and> \<not> isFalse r \<and> \<not> isBool r)"
  by (auto simp: NotIn_def zeroExpression_def split: outcome.splits if_splits)

lemma produced_constant_flags:
  "produced e \<Longrightarrow> (isTrue e \<longrightarrow> e = True') \<and> (isFalse e \<longrightarrow> e = False')"
proof (induction rule: produced.induct)
  case (p_In e "values" r)
  then show ?case using In_cases [of e "values" r] by (auto simp: flags_False')
next
  case (p_NotIn e "values" r)
  then show ?case using NotIn_cases [of e "values" r] by (auto simp: flags_True')
next
  case (p_Not e)
  then show ?case by (auto simp: Not'_def flags_True' flags_False' flags_prefixSuffixExpression)
next
  case (p_And e x)
  then show ?case
    by (auto simp: And_def toBooleanExpression_def flags_binaryOperation flags_True' flags_False'
        split: option.splits if_splits)
next
  case (p_And_value e other)
  then show ?case
    by (auto simp: And_def flags_binaryOperation split: option.splits if_splits)
next
  case (p_Or e x)
  then show ?case
    by (auto simp: Or_def toBooleanExpression_def flags_binaryOperation flags_True' flags_False'
        split: option.splits if_splits)
next
  case (p_Or_value e other)
  then show ?case
    by (auto simp: Or_def flags_binaryOperation split: option.splits if_splits)
qed (simp_all add: flags_True' flags_False' flags_Raw flags_staticExpression flags_binaryOperation
      flags_prefixSuffixExpression flags_function' flags_As flags_buildBetween)

section \<open>Constant folding of \<open>And\<close> and \<open>Or\<close>\<close>

lemma Itoa_small: "Itoa 0 = ''0''" "Itoa 1 = ''1''" "Itoa 2 = ''2''"
  by (simp_all add: Itoa_def FormatUint.simps digitChar_def)

lemma And_False': "And False' v = False'"
  by (simp add: And_def flags_False')

lemma Or_True': "Or True' v = True'"
  by (simp add: Or_def flags_True')

lemma And_True':
  "And True' v = (case toBooleanExpression v of Some exp \<Rightarrow> exp
                  | None \<Rightarrow> binaryOperation True' ''AND'' v 14 True)"
  by (simp add: And_def flags_True')

lemma Or_False':
  "Or False' v = (case toBooleanExpression v of Some exp \<Rightarrow> exp
                  | None \<Rightarrow> binaryOperation False' ''OR'' v 16 True)"
  by (simp add: Or_def flags_False')

lemma toBooleanExpression_classified:
  assumes "produced x" and "isTrue x \<or> isFalse x \<or> isBool x"
  shows "toBooleanExpression (VExpression x) = Some x"
  using produced_constant_flags [OF assms(1)] assms(2)
  by (auto simp: toBooleanExpression_def)

lemma toBooleanExpression_unclassified:
  "\<not> (isTrue x \<or> isFalse x \<or> isBool x) \<Longrightarrow> toBooleanExpression (VExpression x) = None"
  by (simp add: toBooleanExpression_def)

text \<open>
  C3. \<open>False().And(v)\<close> renders as \<open>0\<close> and \<open>True().Or(v)\<close> as \<open>1\<close>, for every value
  \<open>v\<close>. For a node \<open>x\<close> that the package has produced: when \<open>x\<close> is classified
  (definitely true, definitely false or boolean), \<open>True().And(x)\<close> and \<open>False().Or(x)\<close>
  render as \<open>x\<close> does; when it is not, they are the generic \<open>AND\<close> and \<open>OR\<close> nodes.
\<close>

theorem And_Or_constant_folding:
  assumes "produced x"
  shows "GetSQL (And False' v) sc = Return (''0'', None)
       \<and> GetSQL (Or True' v) sc = Return (''1'', None)
       \<and> (isTrue x \<or> isFalse x \<or> isBool x \<longrightarrow>
            GetSQL (And True' (VExpression x)) sc = GetSQL x sc
          \<and> GetSQL (Or False' (VExpression x)) sc = GetSQL x sc)
       \<and> (\<not> (isTrue x \<or> isFalse x \<or> isBool x) \<longrightarrow>
            And True' (VExpression x) = binaryOperation True' ''AND'' (VExpression x) 14 True
          \<and> Or False' (VExpression x) = binaryOperation False' ''OR'' (VExpression x) 16 True)"
proof -
  have absorb_and: "GetSQL (And False' v) sc = Return (''0'', None)"
    by (simp add: And_False' GetSQL_False')
  have absorb_or: "GetSQL (Or True' v) sc = Return (''1'', None)"
    by (simp add: Or_True' GetSQL_True')
  have fold: "GetSQL (And True' (VExpression x)) sc = GetSQL x sc
          \<and> GetSQL (Or False' (VExpression x)) sc = GetSQL x sc"
    if "isTrue x \<or> isFalse x \<or> isBool x"
    using toBooleanExpression_classified [OF assms that]
    by (simp add: And_True' Or_False')
  have generic: "And True' (VExpression x) = binaryOperation True' ''AND'' (VExpression x) 14 True
          \<and> Or False' (VExpression x) = binaryOperation False' ''OR'' (VExpression x) 16 True"
    if "\<not> (isTrue x \<or> isFalse x \<or> isBool x)"
    using toBooleanExpression_unclassified [OF that]
    by (simp add: And_True' Or_False')
  show ?thesis
    using absorb_and absorb_or fold generic by blast
qed

theorem And_Or_constant_folding_witness:
  "produced (Equals (Raw ''a'') (VInt 1))
   \<and> isBool (Equals (Raw ''a'') (VInt 1))
   \<and> GetSQL (Equals (Raw ''a'') (VInt 1)) noTables = Return (''(a) = 1'', None)
   \<and> GetSQL (And True' (VExpression (Equals (Raw ''a'') (VInt 1)))) noTables
       = Return (''(a) = 1'', None)
   \<and> GetSQL (Or False' (VExpression (Equals (Raw ''a'') (VInt 1)))) noTables
       = Return (''(a) = 1'', None)
   \<and> produced (Raw ''a'')
   \<and> GetSQL (And True' (VExpression (Raw ''a''))) noTables = Return (''1 AND (a)'', None)
   \<and> GetSQL (Or False' (VExpression (Raw ''a''))) noTables = Return (''0 OR (a)'', None)"
proof -
  have p1: "produced (Equals (Raw ''a'') (VInt 1))"
    unfolding Equals_def by (rule p_binary [OF p_Raw])
  have b1: "isBool (Equals (Raw ''a'') (VInt 1))"
    by (simp add: Equals_def flags_binaryOperation)
  have r1: "GetSQL (Equals (Raw ''a'') (VInt 1)) noTables = Return (''(a) = 1'', None)"
    by (simp add: Equals_def GetSQL_binaryOperation GetSQL_Raw flags_Raw Itoa_small
        parenthesize_def)
  have p2: "produced (Raw ''a'')" by (rule p_Raw)
  have r2: "GetSQL (binaryOperation True' ''AND'' (VExpression (Raw ''a'')) 14 True) noTables
              = Return (''1 AND (a)'', None)"
    by (simp add: GetSQL_binaryOperation GetSQL_True' GetSQL_Raw flags_Raw flags_True'
        getOperatorPriority_def parenthesize_def)
  have r3: "GetSQL (binaryOperation False' ''OR'' (VExpression (Raw ''a'')) 16 True) noTables
              = Return (''0 OR (a)'', None)"
    by (simp add: GetSQL_binaryOperation GetSQL_False' GetSQL_Raw flags_Raw flags_False'
        getOperatorPriority_def parenthesize_def)
  show ?thesis
    using p1 b1 r1 p2 r2 r3
      And_Or_constant_folding [OF p1, of "VInt 0" noTables]
      And_Or_constant_folding [OF p2, of "VInt 0" noTables]
    by (simp add: flags_Raw)
qed

section \<open>\<open>In\<close> and \<open>NotIn\<close>\<close>

text \<open>
  C5. When flattening the arguments leaves no value, \<open>In\<close> returns the constant that
  renders as \<open>0\<close> and \<open>NotIn\<close> the constant that renders as \<open>1\<close>; so do the calls with no
  argument at all.
\<close>

theorem In_NotIn_without_values:
  assumes "expandSliceValues values = Return []"
  shows "In e values = Return False'
       \<and> NotIn e values = Return True'
       \<and> GetSQL False' sc = Return (''0'', None)
       \<and> GetSQL True' sc = Return (''1'', None)
       \<and> In e [] = Return False'
       \<and> NotIn e [] = Return True'"
  using assms
  by (simp add: In_def NotIn_def GetSQL_True' GetSQL_False' expandSliceValues_def)

theorem In_NotIn_without_values_witness:
  "expandSliceValues [VReflected (RSlice []), VReflected (RPtr (Some (VReflected (RSlice []))))]
     = Return []
   \<and> In (Raw ''x'') [VReflected (RSlice []), VReflected (RPtr (Some (VReflected (RSlice []))))]
     = Return False'
   \<and> NotIn (Raw ''x'') [VReflected (RSlice []), VReflected (RPtr (Some (VReflected (RSlice []))))]
     = Return True'
   \<and> GetSQL False' noTables = Return (''0'', None)
   \<and> GetSQL True' noTables = Return (''1'', None)"
proof -
  have flat: "expandSliceValues
      [VReflected (RSlice []), VReflected (RPtr (Some (VReflected (RSlice []))))] = Return []"
    by (simp add: expandSliceValues_def)
  show ?thesis
    using flat In_NotIn_without_values [OF flat, of "Raw ''x''" noTables] by simp
qed

text \<open>
  C6. The claim is that a nil pointer nested in the arguments of \<open>In\<close> or \<open>NotIn\<close> ends
  its branch of the flattening without a failure. In the code the call panics: a nil
  pointer (alone, or nested in slices and pointers) and an untyped \<open>nil\<close> reach
  \<open>Interface()\<close> on the zero \<open>reflect.Value\<close>. The marshaller, on the same nil
  pointer, checks \<open>IsNil\<close> and renders \<open>NULL\<close>.
\<close>

theorem In_of_nil_pointer_panics:
  "In e [VReflected (RPtr None)] = Panic zeroValuePanic
   \<and> NotIn e [VReflected (RPtr None)] = Panic zeroValuePanic
   \<and> In e [VInt 1, VReflected (RSlice [VInt 2, VReflected (RPtr (Some (VReflected (RPtr None))))])]
       = Panic zeroValuePanic
   \<and> In e [VNil] = Panic zeroValuePanic
   \<and> getSQL sc (VReflected (RPtr None)) = Return (''NULL'', 0, None)"
  by (simp add: In_def NotIn_def expandSliceValues_def)

section \<open>Prefix and suffix operators\<close>

lemma GetSQL_prefixSuffix_literal:
  "sql e \<noteq> [] \<Longrightarrow>
   GetSQL (prefixSuffixExpression e prefix suffix p b) sc = Return (prefix @ sql e @ suffix, None)"
  by (simp add: prefixSuffixExpression_def GetSQL_def zeroExpression_def)

lemma sql_prefixSuffix_literal:
  "sql e \<noteq> [] \<Longrightarrow> sql (prefixSuffixExpression e prefix suffix p b) = prefix @ sql e @ suffix"
  by (simp add: prefixSuffixExpression_def zeroExpression_def)

lemma sql_prefixSuffix_builder:
  "sql e = [] \<Longrightarrow> sql (prefixSuffixExpression e prefix suffix p b) = []"
  by (simp add: prefixSuffixExpression_def zeroExpression_def)

lemma GetSQL_prefixSuffix_builder:
  "sql e = [] \<Longrightarrow>
   GetSQL (prefixSuffixExpression e prefix suffix p b) sc =
     (case GetSQL e sc of
        Panic m \<Rightarrow> Panic m
      | Return (exprSql, Some err) \<Rightarrow> Return ([], Some err)
      | Return (exprSql, None) \<Rightarrow>
          Return (prefix @ parenthesize (priority e > p) exprSql @ suffix, None))"
  by (simp add: prefixSuffixExpression_def GetSQL_def zeroExpression_def)

text \<open>A raw fragment on either side of a binary operator of priority below 99.\<close>

lemma Raw_operand_of_binaryOperation:
  assumes "s \<noteq> []" and "p < 99"
    and "GetSQL e sc = Return (l, None)" and "getSQL sc v = Return (r, q, None)"
  shows "GetSQL (binaryOperation (Raw s) operator v p b) sc
           = Return (''('' @ s @ '') '' @ operator @ '' '' @ parenthesize (q \<ge> p) r, None)
       \<and> GetSQL (binaryOperation e operator (VExpression (Raw s)) p b) sc
           = Return (parenthesize (priority e > p) l @ '' '' @ operator @ '' ('' @ s @ '')'', None)"
  using assms
  by (simp add: GetSQL_binaryOperation GetSQL_Raw flags_Raw getOperatorPriority_def
      parenthesize_def)

text \<open>
  C4. The claim is that a raw fragment (priority 99) is put in parentheses as the
  operand of every operator. As an operand of a binary operator it is; as the operand
  of a prefix or suffix operator it is not: \<open>prefixSuffixExpression\<close> takes its branch
  for nodes with literal text, which never adds parentheses, while its other branch
  compares the priorities and does.
\<close>

theorem Raw_operand_of_unary_operator:
  "GetSQL (IsNull (Raw ''a OR b'')) sc = Return (''a OR b IS NULL'', None)
   \<and> GetSQL (Not' (Raw ''a OR b'')) sc = Return (''NOT a OR b'', None)
   \<and> GetSQL (IsNull (Or (Raw ''a'') (VExpression (Raw ''b'')))) sc
       = Return (''((a) OR (b)) IS NULL'', None)
   \<and> GetSQL (Equals (Raw ''a OR b'') (VExpression (Raw ''c OR d''))) sc
       = Return (''(a OR b) = (c OR d)'', None)"
proof -
  have u1: "GetSQL (IsNull (Raw ''a OR b'')) sc = Return (''a OR b IS NULL'', None)"
    by (simp add: IsNull_def GetSQL_prefixSuffix_literal flags_Raw)
  have u2: "GetSQL (Not' (Raw ''a OR b'')) sc = Return (''NOT a OR b'', None)"
    by (simp add: Not'_def GetSQL_prefixSuffix_literal flags_Raw)
  have o: "Or (Raw ''a'') (VExpression (Raw ''b''))
             = binaryOperation (Raw ''a'') ''OR'' (VExpression (Raw ''b'')) 16 True"
    by (simp add: Or_def flags_Raw)
  have u3: "GetSQL (IsNull (Or (Raw ''a'') (VExpression (Raw ''b'')))) sc
       = Return (''((a) OR (b)) IS NULL'', None)"
    unfolding o
    by (simp add: IsNull_def GetSQL_prefixSuffix_builder flags_binaryOperation
        GetSQL_binaryOperation GetSQL_Raw flags_Raw getOperatorPriority_def parenthesize_def)
  have b1: "GetSQL (Equals (Raw ''a OR b'') (VExpression (Raw ''c OR d''))) sc
       = Return (''(a OR b) = (c OR d)'', None)"
    by (simp add: Equals_def GetSQL_binaryOperation GetSQL_Raw flags_Raw
        getOperatorPriority_def parenthesize_def)
  show ?thesis using u1 u2 u3 b1 by blast
qed

section \<open>Literal text and builder\<close>

text \<open>
  No produced node has both a literal text and a builder, and the only produced nodes
  with neither are those given the empty text.
\<close>

lemma produced_not_both: "produced e \<Longrightarrow> sql e = [] \<or> builder e = None"
proof (induction rule: produced.induct)
  case (p_In e "values" r)
  then show ?case by (auto simp: In_def False'_def zeroExpression_def split: outcome.splits if_splits)
next
  case (p_NotIn e "values" r)
  then show ?case by (auto simp: NotIn_def True'_def zeroExpression_def split: outcome.splits if_splits)
next
  case (p_And e x)
  then show ?case
    by (auto simp: And_def toBooleanExpression_def binaryOperation_def True'_def False'_def
        zeroExpression_def split: if_splits)
next
  case (p_Or e x)
  then show ?case
    by (auto simp: Or_def toBooleanExpression_def binaryOperation_def True'_def False'_def
        zeroExpression_def split: if_splits)
qed (auto simp: True'_def False'_def Raw_def staticExpression_def binaryOperation_def
      prefixSuffixExpression_def function'_def As_def buildBetween_def Not'_def And_def Or_def
      zeroExpression_def)

lemma produced_neither:
  "produced e \<Longrightarrow> sql e = [] \<Longrightarrow> builder e = None \<Longrightarrow>
   e = Raw [] \<or> (\<exists>p b. e = staticExpression [] p b)"
proof (induction rule: produced.induct)
  case (p_In e "values" r)
  then show ?case by (auto simp: In_def False'_def zeroExpression_def split: outcome.splits if_splits)
next
  case (p_NotIn e "values" r)
  then show ?case by (auto simp: NotIn_def True'_def zeroExpression_def split: outcome.splits if_splits)
next
  case (p_And e x)
  then show ?case
    by (auto simp: And_def toBooleanExpression_def binaryOperation_def True'_def False'_def
        zeroExpression_def split: if_splits)
next
  case (p_Or e x)
  then show ?case
    by (auto simp: Or_def toBooleanExpression_def binaryOperation_def True'_def False'_def
        zeroExpression_def split: if_splits)
next
  case (p_And_value e other)
  then show ?case
    by (auto simp: And_def binaryOperation_def zeroExpression_def split: if_splits)
next
  case (p_Or_value e other)
  then show ?case
    by (auto simp: Or_def binaryOperation_def zeroExpression_def split: if_splits)
next
  case (p_Not e)
  then show ?case
    by (auto simp: Not'_def prefixSuffixExpression_def True'_def False'_def zeroExpression_def
        split: if_splits)
next
  case (p_Raw s)
  then show ?case by (simp add: Raw_def zeroExpression_def)
next
  case (p_static s p b)
  then show ?case by (auto simp: staticExpression_def zeroExpression_def)
qed (auto simp: True'_def False'_def binaryOperation_def
      prefixSuffixExpression_def function'_def As_def buildBetween_def zeroExpression_def
      split: if_splits)

text \<open>
  C8. The claim is that every node the package hands out has exactly one of literal
  text and builder. \<open>Raw("")\<close> has neither: its text is empty, its builder is nil, and
  \<open>GetSQL\<close>, which relies on one of the two being there, calls the nil builder.
  Every other node the public functions return has exactly one of the two.
\<close>

theorem Raw_of_empty_text:
  "produced (Raw [])
   \<and> sql (Raw []) = [] \<and> builder (Raw []) = None
   \<and> GetSQL (Raw []) sc = Panic ''invalid memory address or nil pointer dereference''"
proof -
  have "produced (Raw [])" by (rule p_Raw)
  moreover have "sql (Raw []) = [] \<and> builder (Raw []) = None"
    by (simp add: Raw_def zeroExpression_def)
  moreover have "GetSQL (Raw []) sc = Panic ''invalid memory address or nil pointer dereference''"
    by (simp add: Raw_def zeroExpression_def GetSQL_def)
  ultimately show ?thesis by blast
qed

section \<open>Double negation\<close>

lemma Not'_plain:
  "\<not> isTrue e \<Longrightarrow> \<not> isFalse e \<Longrightarrow> Not' e = prefixSuffixExpression e ''NOT '' [] 13 True"
  by (simp add: Not'_def)

text \<open>
  C7, as stated, fails: for the non-constant node \<open>Raw("a").Equals(1)\<close>, which renders
  as \<open>(a) = 1\<close>, the double negation renders as \<open>NOT NOT (a) = 1\<close>, with no
  parentheses around the inner \<open>NOT\<close>.
\<close>

theorem double_Not_counterexample:
  "\<not> isTrue (Equals (Raw ''a'') (VInt 1))
   \<and> \<not> isFalse (Equals (Raw ''a'') (VInt 1))
   \<and> GetSQL (Equals (Raw ''a'') (VInt 1)) noTables = Return (''(a) = 1'', None)
   \<and> GetSQL (Not' (Not' (Equals (Raw ''a'') (VInt 1)))) noTables
       = Return (''NOT NOT (a) = 1'', None)
   \<and> GetSQL (Not' (Not' (Equals (Raw ''a'') (VInt 1)))) noTables
       \<noteq> Return (''NOT (NOT (a) = 1)'', None)"
proof -
  let ?e = "Equals (Raw ''a'') (VInt 1)"
  have f: "\<not> isTrue ?e" "\<not> isFalse ?e" "sql ?e = []" "priority ?e = 11"
    by (simp_all add: Equals_def flags_binaryOperation)
  have r: "GetSQL ?e noTables = Return (''(a) = 1'', None)"
    by (simp add: Equals_def GetSQL_binaryOperation GetSQL_Raw flags_Raw Itoa_small
        parenthesize_def)
  have n1: "Not' ?e = prefixSuffixExpression ?e ''NOT '' [] 13 True"
    using f by (simp add: Not'_plain)
  have n2: "Not' (Not' ?e) = prefixSuffixExpression (Not' ?e) ''NOT '' [] 13 True"
    unfolding n1 by (simp add: Not'_plain flags_prefixSuffixExpression)
  have r1: "GetSQL (Not' ?e) noTables = Return (''NOT (a) = 1'', None)"
    unfolding n1 using f r by (simp add: GetSQL_prefixSuffix_builder parenthesize_def)
  have s1: "sql (Not' ?e) = []" "priority (Not' ?e) = 13"
    unfolding n1 using f by (simp_all add: sql_prefixSuffix_builder flags_prefixSuffixExpression)
  have r2: "GetSQL (Not' (Not' ?e)) noTables = Return (''NOT NOT (a) = 1'', None)"
    unfolding n2 using s1 r1 by (simp add: GetSQL_prefixSuffix_builder parenthesize_def)
  show ?thesis using f r r2 by simp
qed

text \<open>
  C7, amended. For a node \<open>e\<close> that is neither definitely true nor definitely false,
  that renders as \<open>s\<close>, and that is rendered by a builder or has a priority of at most
  13, \<open>e.Not().Not()\<close> renders as \<open>NOT NOT s\<close>, with \<open>s\<close> in parentheses only when the
  priority of \<open>e\<close> is strictly greater than 13: the double negation is not simplified,
  and the inner \<open>NOT\<close>, of priority 13, is never put in parentheses.
\<close>

theorem double_Not_not_simplified:
  assumes "\<not> isTrue e" and "\<not> isFalse e"
    and "GetSQL e sc = Return (s, None)"
    and "sql e = [] \<or> priority e \<le> 13"
  shows "GetSQL (Not' (Not' e)) sc =
           Return (''NOT NOT '' @ (if priority e > 13 then ''('' @ s @ '')'' else s), None)"
proof -
  have n1: "Not' e = prefixSuffixExpression e ''NOT '' [] 13 True"
    using assms by (simp add: Not'_plain)
  have n2: "Not' (Not' e) = prefixSuffixExpression (Not' e) ''NOT '' [] 13 True"
    unfolding n1 by (simp add: Not'_plain flags_prefixSuffixExpression)
  have p1: "priority (Not' e) = 13"
    unfolding n1 by (simp add: flags_prefixSuffixExpression)
  show ?thesis
  proof (cases "sql e = []")
    case True
    have r1: "GetSQL (Not' e) sc = Return (''NOT '' @ parenthesize (priority e > 13) s, None)"
      unfolding n1 using True assms(3) by (simp add: GetSQL_prefixSuffix_builder)
    have s1: "sql (Not' e) = []"
      unfolding n1 using True by (simp add: sql_prefixSuffix_builder)
    show ?thesis
      unfolding n2 using s1 p1 r1
      by (simp add: GetSQL_prefixSuffix_builder parenthesize_def)
  next
    case False
    with assms(4) have le: "priority e \<le> 13" by simp
    have s_eq: "s = sql e"
      using False assms(3) by (simp add: GetSQL_def)
    have s1: "sql (Not' e) = ''NOT '' @ sql e"
      unfolding n1 using False by (simp add: sql_prefixSuffix_literal)
    have "GetSQL (Not' (Not' e)) sc = Return (''NOT '' @ sql (Not' e) @ [], None)"
      unfolding n2 using s1 by (intro GetSQL_prefixSuffix_literal) simp
    then show ?thesis
      using s1 s_eq le by (simp add: not_less [symmetric])
  qed
qed

theorem double_Not_not_simplified_witness:
  "\<not> isTrue (Or (Raw ''a'') (VInt 1))
   \<and> \<not> isFalse (Or (Raw ''a'') (VInt 1))
   \<and> GetSQL (Or (Raw ''a'') (VInt 1)) noTables = Return (''(a) OR 1'', None)
   \<and> sql (Or (Raw ''a'') (VInt 1)) = []
   \<and> GetSQL (Not' (Not' (Or (Raw ''a'') (VInt 1)))) noTables
       = Return (''NOT NOT ((a) OR 1)'', None)"
proof -
  let ?e = "Or (Raw ''a'') (VInt 1)"
  have o: "?e = binaryOperation (Raw ''a'') ''OR'' (VInt 1) 16 True"
    by (simp add: Or_def flags_Raw)
  have f: "\<not> isTrue ?e" "\<not> isFalse ?e" "sql ?e = []" "priority ?e = 16"
    unfolding o by (simp_all add: flags_binaryOperation)
  have r: "GetSQL ?e noTables = Return (''(a) OR 1'', None)"
    unfolding o
    by (simp add: GetSQL_binaryOperation GetSQL_Raw flags_Raw Itoa_small parenthesize_def)
  have h: "sql ?e = [] \<or> priority ?e \<le> 13" using f by simp
  show ?thesis
    using f r double_Not_not_simplified [OF f(1) f(2) r h] by simp
qed

section \<open>Errors of nested calls\<close>

lemma commaLoop_first_error:
  assumes "\<forall>x\<in>set xs. \<exists>s k. getSQL sc x = Return (s, k, None)"
    and "getSQL sc v = Return (t, q, Some err)"
  shows "commaLoop sc acc i (xs @ v # ys) = Return ([], Some err)"
  using assms
proof (induction xs arbitrary: acc i)
  case Nil
  then show ?case by (simp add: Let_def)
next
  case (Cons x xs)
  from Cons.prems(1) obtain s k where x: "getSQL sc x = Return (s, k, None)" by auto
  from Cons.prems(1) have rest: "\<forall>x\<in>set xs. \<exists>s k. getSQL sc x = Return (s, k, None)" by simp
  show ?case
    using x Cons.IH [OF rest Cons.prems(2)] by (simp add: Let_def)
qed

lemma commaLoop_all_ok:
  assumes "\<forall>x\<in>set xs. \<exists>s k. getSQL sc x = Return (s, k, None)"
  shows "\<exists>s. commaLoop sc acc i xs = Return (s, None)"
  using assms
proof (induction xs arbitrary: acc i)
  case Nil
  then show ?case by simp
next
  case (Cons x xs)
  from Cons.prems obtain s k where x: "getSQL sc x = Return (s, k, None)" by auto
  from Cons.prems have rest: "\<forall>x\<in>set xs. \<exists>s k. getSQL sc x = Return (s, k, None)" by simp
  show ?case
    using x Cons.IH [OF rest] by (simp add: Let_def)
qed

lemma commaLoop_error_text:
  "commaLoop sc acc i xs = Return (s, Some err) \<Longrightarrow>
   s = [] \<and> (\<exists>x\<in>set xs. \<exists>t q. getSQL sc x = Return (t, q, Some err))"
proof (induction xs arbitrary: acc i)
  case Nil
  then show ?case by simp
next
  case (Cons x xs)
  show ?case
  proof (cases "getSQL sc x")
    case (Panic m)
    with Cons.prems show ?thesis by (simp add: Let_def)
  next
    case (Return r)
    obtain t q e where r: "r = (t, q, e)" by (cases r) auto
    show ?thesis
    proof (cases e)
      case None
      with Return r Cons.prems
      have "commaLoop sc ((if 0 < i then acc @ '', '' else acc) @ t) (i + 1) xs
              = Return (s, Some err)"
        by (simp add: Let_def)
      from Cons.IH [OF this] show ?thesis by auto
    next
      case (Some e')
      with Return r Cons.prems show ?thesis by (auto simp: Let_def)
    qed
  qed
qed

lemma GetSQL_function':
  "GetSQL (function' name args) sc =
     (case commaValues sc args of
        Panic m \<Rightarrow> Panic m
      | Return (valuesSql, Some err) \<Rightarrow> Return ([], Some err)
      | Return (valuesSql, None) \<Rightarrow> Return (name @ ''('' @ valuesSql @ '')'', None))"
  by (simp add: function'_def GetSQL_def zeroExpression_def)

lemma GetSQL_buildBetween:
  "GetSQL (buildBetween e operator lo hi) sc =
     (case GetSQL e sc of
        Panic m \<Rightarrow> Panic m
      | Return (exprSql, Some err) \<Rightarrow> Return ([], Some err)
      | Return (exprSql, None) \<Rightarrow>
          (case getSQL sc lo of
             Panic m \<Rightarrow> Panic m
           | Return (minSql, _, Some err) \<Rightarrow> Return ([], Some err)
           | Return (minSql, _, None) \<Rightarrow>
               (case getSQL sc hi of
                  Panic m \<Rightarrow> Panic m
                | Return (maxSql, _, Some err) \<Rightarrow> Return ([], Some err)
                | Return (maxSql, _, None) \<Rightarrow>
                    Return (exprSql @ operator @ minSql @ '' AND '' @ maxSql, None))))"
  by (simp add: buildBetween_def GetSQL_def zeroExpression_def)

lemma In_node:
  "expandSliceValues values = Return vs \<Longrightarrow> vs \<noteq> [] \<Longrightarrow>
   \<exists>r. In e values = Return r \<and>
       GetSQL r sc = getBuilder e (Equals e)
         (\<lambda>exprSql valuesSql. exprSql @ '' IN ('' @ valuesSql @ '')'') vs sc"
  by (simp add: In_def GetSQL_def zeroExpression_def)

lemma NotIn_node:
  "expandSliceValues values = Return vs \<Longrightarrow> vs \<noteq> [] \<Longrightarrow>
   \<exists>r. NotIn e values = Return r \<and>
       GetSQL r sc = getBuilder e (NotEquals e)
         (\<lambda>exprSql valuesSql. exprSql @ '' NOT IN ('' @ valuesSql @ '')'') vs sc"
  by (simp add: NotIn_def GetSQL_def zeroExpression_def)

lemma binaryOperation_error_text:
  "GetSQL (binaryOperation e operator v p b) sc = Return (s, Some err) \<Longrightarrow> s = []"
  by (auto simp: GetSQL_binaryOperation split: outcome.splits option.splits prod.splits)

lemma buildBetween_error_text:
  "GetSQL (buildBetween e operator lo hi) sc = Return (s, Some err) \<Longrightarrow> s = []"
  by (auto simp: GetSQL_buildBetween split: outcome.splits option.splits prod.splits)

lemma function'_error_text:
  "GetSQL (function' name args) sc = Return (s, Some err) \<Longrightarrow> s = []"
  by (auto simp: GetSQL_function' split: outcome.splits option.splits prod.splits)

lemma commaValues_error_text:
  "commaValues sc vs = Return (s, Some err) \<Longrightarrow> s = []"
  unfolding commaValues_def by (drule commaLoop_error_text) simp

lemma getBuilder_single:
  assumes "\<forall>r. v \<noteq> VSelectFinal r"
  shows "getBuilder e single joiner [v] sc = GetSQL (single v) sc"
  using assms by (cases v) (simp_all add: getBuilder_def)

lemma getBuilder_list:
  assumes "length vs \<noteq> 1"
  shows "getBuilder e single joiner vs sc =
     (case commaValues sc vs of
        Panic m \<Rightarrow> Panic m
      | Return (valuesSql, Some err) \<Rightarrow> Return ([], Some err)
      | Return (valuesSql, None) \<Rightarrow>
          (case GetSQL e sc of
             Panic m \<Rightarrow> Panic m
           | Return (exprSql, Some err) \<Rightarrow> Return ([], Some err)
           | Return (exprSql, None) \<Rightarrow> Return (joiner exprSql valuesSql, None)))"
  using assms by (simp add: getBuilder_def)

lemma getBuilder_error_text:
  assumes "getBuilder e single joiner vs sc = Return (s, Some err)"
    and "\<And>v t err'. GetSQL (single v) sc = Return (t, Some err') \<Longrightarrow> t = []"
  shows "s = []"
proof (cases "length vs = 1")
  case True
  then obtain v where vs: "vs = [v]" by (cases vs) auto
  show ?thesis
  proof (cases "\<exists>r. v = VSelectFinal r")
    case True
    then show ?thesis using assms(1) vs
      by (auto simp: getBuilder_def split: outcome.splits option.splits prod.splits)
  next
    case False
    then have "getBuilder e single joiner vs sc = GetSQL (single v) sc"
      unfolding vs by (intro getBuilder_single) simp
    with assms(1) have "GetSQL (single v) sc = Return (s, Some err)" by simp
    then show ?thesis by (rule assms(2))
  qed
next
  case False
  then show ?thesis using assms(1)
    by (auto simp: getBuilder_def split: outcome.splits option.splits prod.splits)
qed

lemma getBuilder_value_error:
  assumes e: "GetSQL e sc = Return (l, None)"
    and xs: "\<forall>x\<in>set xs. \<exists>s k. getSQL sc x = Return (s, k, None)"
    and v: "getSQL sc v = Return (t, q, Some err)"
    and single: "\<And>w. single w = binaryOperation e operator w 11 True"
  shows "getBuilder e single joiner (xs @ v # ys) sc = Return ([], Some err)"
proof (cases "length (xs @ v # ys) = 1")
  case True
  then have one: "xs = []" "ys = []" by (cases xs; simp)+
  show ?thesis
  proof (cases "\<exists>r. v = VSelectFinal r")
    case True
    then obtain r where r: "v = VSelectFinal r" by blast
    with v have "r = Return (t, Some err)"
      by (auto split: outcome.splits option.splits prod.splits)
    then show ?thesis using one r by (simp add: getBuilder_def)
  next
    case False
    then have "getBuilder e single joiner [v] sc = GetSQL (single v) sc"
      by (intro getBuilder_single) simp
    then show ?thesis
      using one e v by (simp add: single GetSQL_binaryOperation)
  qed
next
  case False
  have "commaValues sc (xs @ v # ys) = Return ([], Some err)"
    unfolding commaValues_def by (rule commaLoop_first_error [OF xs v])
  then show ?thesis by (simp add: getBuilder_list [OF False])
qed

lemma getBuilder_expression_error:
  assumes e: "GetSQL e sc = Return (l, Some err)"
    and vs: "\<forall>x\<in>set vs. \<exists>s k. getSQL sc x = Return (s, k, None)"
    and single: "\<And>w. single w = binaryOperation e operator w 11 True"
  shows "getBuilder e single joiner vs sc = Return ([], Some err)"
proof (cases "length vs = 1")
  case True
  then obtain v where one: "vs = [v]" by (cases vs) auto
  show ?thesis
  proof (cases "\<exists>r. v = VSelectFinal r")
    case True
    then obtain r where r: "v = VSelectFinal r" by blast
    from vs one obtain s k where "getSQL sc v = Return (s, k, None)" by auto
    with r obtain s' where "r = Return (s', None)"
      by (auto split: outcome.splits option.splits prod.splits)
    then show ?thesis using one r e by (simp add: getBuilder_def)
  next
    case False
    then have "getBuilder e single joiner [v] sc = GetSQL (single v) sc"
      by (intro getBuilder_single) simp
    then show ?thesis
      using one e by (simp add: single GetSQL_binaryOperation)
  qed
next
  case False
  obtain s where "commaValues sc vs = Return (s, None)"
    unfolding commaValues_def using commaLoop_all_ok [OF vs] by blast
  then show ?thesis using e by (simp add: getBuilder_list [OF False])
qed

lemma In_error_text:
  assumes "In e values = Return r" and "GetSQL r sc = Return (s, Some err)"
  shows "s = []"
proof -
  from assms(1) obtain vs where vs: "expandSliceValues values = Return vs"
    by (auto simp: In_def split: outcome.splits)
  show ?thesis
  proof (cases "vs = []")
    case True
    with vs assms show ?thesis by (simp add: In_def GetSQL_False')
  next
    case False
    from In_node [OF vs False, of e sc] assms
    have "getBuilder e (Equals e)
            (\<lambda>exprSql valuesSql. exprSql @ '' IN ('' @ valuesSql @ '')'') vs sc
          = Return (s, Some err)" by auto
    then show ?thesis
      by (rule getBuilder_error_text) (simp add: Equals_def binaryOperation_error_text)
  qed
qed

lemma NotIn_error_text:
  assumes "NotIn e values = Return r" and "GetSQL r sc = Return (s, Some err)"
  shows "s = []"
proof -
  from assms(1) obtain vs where vs: "expandSliceValues values = Return vs"
    by (auto simp: NotIn_def split: outcome.splits)
  show ?thesis
  proof (cases "vs = []")
    case True
    with vs assms show ?thesis by (simp add: NotIn_def GetSQL_True')
  next
    case False
    from NotIn_node [OF vs False, of e sc] assms
    have "getBuilder e (NotEquals e)
            (\<lambda>exprSql valuesSql. exprSql @ '' NOT IN ('' @ valuesSql @ '')'') vs sc
          = Return (s, Some err)" by auto
    then show ?thesis
      by (rule getBuilder_error_text) (simp add: NotEquals_def binaryOperation_error_text)
  qed
qed

lemma In_value_error:
  assumes "GetSQL e sc = Return (l, None)"
    and "\<forall>x\<in>set xs. \<exists>s k. getSQL sc x = Return (s, k, None)"
    and "getSQL sc v = Return (t, q, Some err)"
    and flat: "expandSliceValues values = Return (xs @ v # ys)"
  shows "(\<exists>r. In e values = Return r \<and> GetSQL r sc = Return ([], Some err))
       \<and> (\<exists>r. NotIn e values = Return r \<and> GetSQL r sc = Return ([], Some err))"
proof -
  have ne: "xs @ v # ys \<noteq> []" by simp
  have i: "getBuilder e (Equals e) (\<lambda>exprSql valuesSql. exprSql @ '' IN ('' @ valuesSql @ '')'')
             (xs @ v # ys) sc = Return ([], Some err)"
    by (rule getBuilder_value_error [OF assms(1-3)]) (simp add: Equals_def)
  have n: "getBuilder e (NotEquals e)
             (\<lambda>exprSql valuesSql. exprSql @ '' NOT IN ('' @ valuesSql @ '')'')
             (xs @ v # ys) sc = Return ([], Some err)"
    by (rule getBuilder_value_error [OF assms(1-3)]) (simp add: NotEquals_def)
  show ?thesis
    using In_node [OF flat ne, of e sc] NotIn_node [OF flat ne, of e sc] i n by auto
qed

lemma In_expression_error:
  assumes "GetSQL f sc = Return (l, Some err)"
    and "\<forall>x\<in>set vs. \<exists>s k. getSQL sc x = Return (s, k, None)"
    and flat: "expandSliceValues values = Return vs" and ne: "vs \<noteq> []"
  shows "(\<exists>r. In f values = Return r \<and> GetSQL r sc = Return ([], Some err))
       \<and> (\<exists>r. NotIn f values = Return r \<and> GetSQL r sc = Return ([], Some err))"
proof -
  have i: "getBuilder f (Equals f) (\<lambda>exprSql valuesSql. exprSql @ '' IN ('' @ valuesSql @ '')'')
             vs sc = Return ([], Some err)"
    by (rule getBuilder_expression_error [OF assms(1-2)]) (simp add: Equals_def)
  have n: "getBuilder f (NotEquals f)
             (\<lambda>exprSql valuesSql. exprSql @ '' NOT IN ('' @ valuesSql @ '')'')
             vs sc = Return ([], Some err)"
    by (rule getBuilder_expression_error [OF assms(1-2)]) (simp add: NotEquals_def)
  show ?thesis
    using In_node [OF flat ne, of f sc] NotIn_node [OF flat ne, of f sc] i n by auto
qed

text \<open>
  C9. When a nested call returns an error, the composing operation returns that error
  and the empty text, whatever text came with the error:
  \<^item> a binary operator and \<open>BETWEEN\<close> whose expression fails, whose right value (or
    lower bound) fails, or whose upper bound fails;
  \<^item> a comma list and a function call, at the first value that fails;
  \<^item> \<open>IN\<close> and \<open>NOT IN\<close> with at least one value, when a value fails or the
    expression does.
  And none of them ever returns an error beside a text that is not empty.
\<close>

theorem child_error_is_returned_unchanged:
  "(GetSQL f sc = Return (l, Some err) \<longrightarrow>
      GetSQL (binaryOperation f operator w p b) sc = Return ([], Some err)
    \<and> GetSQL (buildBetween f operator lo hi) sc = Return ([], Some err))
 \<and> (GetSQL e sc = Return (l, None) \<and> getSQL sc v = Return (t, q, Some err) \<longrightarrow>
      GetSQL (binaryOperation e operator v p b) sc = Return ([], Some err)
    \<and> GetSQL (buildBetween e operator v hi) sc = Return ([], Some err))
 \<and> (GetSQL e sc = Return (l, None) \<and> getSQL sc lo = Return (m, k, None)
      \<and> getSQL sc v = Return (t, q, Some err) \<longrightarrow>
      GetSQL (buildBetween e operator lo v) sc = Return ([], Some err))
 \<and> ((\<forall>x\<in>set xs. \<exists>s k. getSQL sc x = Return (s, k, None))
      \<and> getSQL sc v = Return (t, q, Some err) \<longrightarrow>
      commaValues sc (xs @ v # ys) = Return ([], Some err)
    \<and> GetSQL (function' name (xs @ v # ys)) sc = Return ([], Some err))
 \<and> (GetSQL e sc = Return (l, None)
      \<and> (\<forall>x\<in>set xs. \<exists>s k. getSQL sc x = Return (s, k, None))
      \<and> getSQL sc v = Return (t, q, Some err)
      \<and> expandSliceValues values = Return (xs @ v # ys) \<longrightarrow>
      (\<exists>r. In e values = Return r \<and> GetSQL r sc = Return ([], Some err))
    \<and> (\<exists>r. NotIn e values = Return r \<and> GetSQL r sc = Return ([], Some err)))
 \<and> (GetSQL f sc = Return (l, Some err)
      \<and> (\<forall>x\<in>set vs. \<exists>s k. getSQL sc x = Return (s, k, None))
      \<and> expandSliceValues values = Return vs \<and> vs \<noteq> [] \<longrightarrow>
      (\<exists>r. In f values = Return r \<and> GetSQL r sc = Return ([], Some err))
    \<and> (\<exists>r. NotIn f values = Return r \<and> GetSQL r sc = Return ([], Some err)))
 \<and> (GetSQL (binaryOperation e operator w p b) sc = Return (s, Some err) \<longrightarrow> s = [])
 \<and> (GetSQL (buildBetween e operator lo hi) sc = Return (s, Some err) \<longrightarrow> s = [])
 \<and> (commaValues sc vs = Return (s, Some err) \<longrightarrow> s = [])
 \<and> (GetSQL (function' name vs) sc = Return (s, Some err) \<longrightarrow> s = [])
 \<and> (In e values = Return r \<and> GetSQL r sc = Return (s, Some err) \<longrightarrow> s = [])
 \<and> (NotIn e values = Return r \<and> GetSQL r sc = Return (s, Some err) \<longrightarrow> s = [])"
proof -
  have left: "GetSQL (binaryOperation f operator w p b) sc = Return ([], Some err)
    \<and> GetSQL (buildBetween f operator lo hi) sc = Return ([], Some err)"
    if "GetSQL f sc = Return (l, Some err)"
    using that by (simp add: GetSQL_binaryOperation GetSQL_buildBetween)
  have right: "GetSQL (binaryOperation e operator v p b) sc = Return ([], Some err)
    \<and> GetSQL (buildBetween e operator v hi) sc = Return ([], Some err)"
    if "GetSQL e sc = Return (l, None)" "getSQL sc v = Return (t, q, Some err)"
    using that by (simp add: GetSQL_binaryOperation GetSQL_buildBetween)
  have upper: "GetSQL (buildBetween e operator lo v) sc = Return ([], Some err)"
    if "GetSQL e sc = Return (l, None)" "getSQL sc lo = Return (m, k, None)"
      "getSQL sc v = Return (t, q, Some err)"
    using that by (simp add: GetSQL_buildBetween)
  have list: "commaValues sc (xs @ v # ys) = Return ([], Some err)
    \<and> GetSQL (function' name (xs @ v # ys)) sc = Return ([], Some err)"
    if "\<forall>x\<in>set xs. \<exists>s k. getSQL sc x = Return (s, k, None)"
      "getSQL sc v = Return (t, q, Some err)"
    using commaLoop_first_error [OF that, of "[]" 0 ys]
    by (simp add: commaValues_def GetSQL_function')
  show ?thesis
    using left right upper list
      In_value_error [of e sc l xs v t q err "values" ys]
      In_expression_error [of f sc l err vs "values"]
      binaryOperation_error_text [of e operator w p b sc s err]
      buildBetween_error_text [of e operator lo hi sc s err]
      commaValues_error_text [of sc vs s err]
      function'_error_text [of name vs sc s err]
      In_error_text [of e "values" r sc s err]
      NotIn_error_text [of e "values" r sc s err]
    by blast
qed

theorem child_error_is_returned_unchanged_witness:
  "GetSQL (Raw ''x'') noTables = Return (''x'', None)
   \<and> getSQL noTables (VInt 1) = Return (''1'', 0, None)
   \<and> getSQL noTables (VSelectFinal (Return (''SELECT'', Some (Error ''no table''))))
       = Return (''SELECT'', 0, Some (Error ''no table''))
   \<and> GetSQL (binaryOperation (Raw ''x'') ''=''
         (VSelectFinal (Return (''SELECT'', Some (Error ''no table'')))) 11 True) noTables
       = Return ([], Some (Error ''no table''))
   \<and> commaValues noTables
         [VInt 1, VSelectFinal (Return (''SELECT'', Some (Error ''no table''))), VInt 2]
       = Return ([], Some (Error ''no table''))
   \<and> GetSQL (function' ''IFNULL''
         [VInt 1, VSelectFinal (Return (''SELECT'', Some (Error ''no table''))), VInt 2]) noTables
       = Return ([], Some (Error ''no table''))
   \<and> GetSQL (buildBetween (Raw ''x'') '' BETWEEN '' (VInt 1)
         (VSelectFinal (Return (''SELECT'', Some (Error ''no table''))))) noTables
       = Return ([], Some (Error ''no table''))"
proof -
  let ?v = "VSelectFinal (Return (''SELECT'', Some (Error ''no table'')))"
  have e: "GetSQL (Raw ''x'') noTables = Return (''x'', None)"
    by (simp add: GetSQL_Raw)
  have one: "getSQL noTables (VInt 1) = Return (''1'', 0, None)"
    by (simp add: Itoa_small)
  have v: "getSQL noTables ?v = Return (''SELECT'', 0, Some (Error ''no table''))"
    by simp
  have before: "\<forall>x\<in>set [VInt 1]. \<exists>s k. getSQL noTables x = Return (s, k, None)"
    by simp
  note inst = child_error_is_returned_unchanged
      [where sc = noTables and e = "Raw ''x''" and l = "''x''" and v = ?v and t = "''SELECT''"
         and q = 0 and err = "Error ''no table''" and xs = "[VInt 1]" and ys = "[VInt 2]"
         and lo = "VInt 1" and m = "''1''" and k = 0 and operator = "'' BETWEEN ''"]
  note inst2 = child_error_is_returned_unchanged
      [where sc = noTables and e = "Raw ''x''" and l = "''x''" and v = ?v and t = "''SELECT''"
         and q = 0 and err = "Error ''no table''" and operator = "''=''" and p = 11 and b = True]
  have binary: "GetSQL (binaryOperation (Raw ''x'') ''='' ?v 11 True) noTables
       = Return ([], Some (Error ''no table''))"
    using e v inst2 by blast
  have comma: "commaValues noTables [VInt 1, ?v, VInt 2] = Return ([], Some (Error ''no table''))
    \<and> GetSQL (function' ''IFNULL'' [VInt 1, ?v, VInt 2]) noTables
       = Return ([], Some (Error ''no table''))"
    using before v inst [where name = "''IFNULL''"] by simp
  have between: "GetSQL (buildBetween (Raw ''x'') '' BETWEEN '' (VInt 1) ?v) noTables
       = Return ([], Some (Error ''no table''))"
    using e one v inst by blast
  show ?thesis
    using e one v binary comma between by simp
qed

section \<open>Classification of the \<open>In\<close> and \<open>Between\<close> nodes\<close>

text \<open>
  C10, as stated, fails: \<open>x.In()\<close> without values returns \<open>False()\<close>, whose boolean
  flag is set, and \<open>True().And(x.In())\<close> is folded: it renders as \<open>0\<close>, where the
  generic node would render as \<open>1 AND 0\<close>.
\<close>

theorem In_without_values_is_folded_counterexample:
  "In (Raw ''x'') [] = Return False'
   \<and> isBool False'
   \<and> GetSQL (And True' (VExpression False')) noTables = Return (''0'', None)
   \<and> GetSQL (binaryOperation True' ''AND'' (VExpression False') 14 True) noTables
       = Return (''1 AND 0'', None)"
proof -
  have "In (Raw ''x'') [] = Return False'"
    by (simp add: In_def expandSliceValues_def)
  moreover have "isBool False'" by (simp add: flags_False')
  moreover have "GetSQL (And True' (VExpression False')) noTables = Return (''0'', None)"
    by (simp add: And_True' toBooleanExpression_def flags_False' GetSQL_False')
  moreover have "GetSQL (binaryOperation True' ''AND'' (VExpression False') 14 True) noTables
       = Return (''1 AND 0'', None)"
    by (simp add: GetSQL_binaryOperation GetSQL_True' GetSQL_False' flags_True' flags_False'
        getOperatorPriority_def parenthesize_def)
  ultimately show ?thesis by blast
qed

lemma In_flags:
  assumes "expandSliceValues values = Return vs" and "vs \<noteq> []"
    and "In x values = Return r \<or> NotIn x values = Return r"
  shows "\<not> isBool r \<and> \<not> isTrue r \<and> \<not> isFalse r \<and> priority r = 11"
  using assms by (auto simp: In_def NotIn_def zeroExpression_def)

text \<open>
  C10, amended. The nodes returned by \<open>Between\<close> and \<open>NotBetween\<close>, and by \<open>In\<close> and
  \<open>NotIn\<close> when at least one value is left after flattening, have the boolean flag
  unset, so \<open>True().And\<close> and \<open>False().Or\<close> build the generic node around them; when
  \<open>x\<close> renders as \<open>s\<close>, \<open>True().And(x.Between(1, 2))\<close> renders as
  \<open>1 AND s BETWEEN 1 AND 2\<close>.
\<close>

theorem membership_and_range_nodes_are_not_folded:
  assumes "GetSQL x sc = Return (s, None)"
  shows "\<not> isBool (Between x lo hi) \<and> \<not> isBool (NotBetween x lo hi)
       \<and> (expandSliceValues args = Return vs \<and> vs \<noteq> []
            \<and> (In x args = Return r \<or> NotIn x args = Return r) \<longrightarrow>
            \<not> isBool r
          \<and> And True' (VExpression r) = binaryOperation True' ''AND'' (VExpression r) 14 True
          \<and> Or False' (VExpression r) = binaryOperation False' ''OR'' (VExpression r) 16 True)
       \<and> And True' (VExpression (Between x lo hi))
           = binaryOperation True' ''AND'' (VExpression (Between x lo hi)) 14 True
       \<and> And True' (VExpression (NotBetween x lo hi))
           = binaryOperation True' ''AND'' (VExpression (NotBetween x lo hi)) 14 True
       \<and> Or False' (VExpression (Between x lo hi))
           = binaryOperation False' ''OR'' (VExpression (Between x lo hi)) 16 True
       \<and> Or False' (VExpression (NotBetween x lo hi))
           = binaryOperation False' ''OR'' (VExpression (NotBetween x lo hi)) 16 True
       \<and> GetSQL (And True' (VExpression (Between x (VInt 1) (VInt 2)))) sc
           = Return (''1 AND '' @ s @ '' BETWEEN 1 AND 2'', None)"
proof -
  have flags: "\<not> isBool (buildBetween x operator lo hi)"
    "\<not> isTrue (buildBetween x operator lo hi)" "\<not> isFalse (buildBetween x operator lo hi)"
    for operator
    by (simp_all add: flags_buildBetween)
  have range: "And True' (VExpression (buildBetween x operator lo hi))
           = binaryOperation True' ''AND'' (VExpression (buildBetween x operator lo hi)) 14 True
       \<and> Or False' (VExpression (buildBetween x operator lo hi))
           = binaryOperation False' ''OR'' (VExpression (buildBetween x operator lo hi)) 16 True"
    for operator lo hi
    by (simp add: And_True' Or_False' toBooleanExpression_def flags_buildBetween)
  have member: "\<not> isBool r
          \<and> And True' (VExpression r) = binaryOperation True' ''AND'' (VExpression r) 14 True
          \<and> Or False' (VExpression r) = binaryOperation False' ''OR'' (VExpression r) 16 True"
    if "expandSliceValues args = Return vs" "vs \<noteq> []"
      "In x args = Return r \<or> NotIn x args = Return r"
    using In_flags [OF that] by (simp add: And_True' Or_False' toBooleanExpression_def)
  have between: "GetSQL (Between x (VInt 1) (VInt 2)) sc
                   = Return (s @ '' BETWEEN 1 AND 2'', None)"
    using assms by (simp add: Between_def GetSQL_buildBetween Itoa_small)
  have rendered: "GetSQL (And True' (VExpression (Between x (VInt 1) (VInt 2)))) sc
           = Return (''1 AND '' @ s @ '' BETWEEN 1 AND 2'', None)"
    using between range [of "'' BETWEEN ''" "VInt 1" "VInt 2"]
    by (simp add: Between_def [symmetric] GetSQL_binaryOperation GetSQL_True' flags_True'
        getOperatorPriority_def parenthesize_def)
       (simp add: Between_def flags_buildBetween)
  show ?thesis
    using flags range member rendered by (simp add: Between_def NotBetween_def)
qed

theorem membership_and_range_nodes_are_not_folded_witness:
  "GetSQL (Raw ''x'') noTables = Return (''x'', None)
   \<and> \<not> isBool (Between (Raw ''x'') (VInt 1) (VInt 2))
   \<and> GetSQL (And True' (VExpression (Between (Raw ''x'') (VInt 1) (VInt 2)))) noTables
       = Return (''1 AND x BETWEEN 1 AND 2'', None)"
proof -
  have x: "GetSQL (Raw ''x'') noTables = Return (''x'', None)"
    by (simp add: GetSQL_Raw)
  note t = membership_and_range_nodes_are_not_folded
      [OF x, where lo = "VInt 1" and hi = "VInt 2" and args = "[]" and vs = "[]" and r = True']
  have a: "\<not> isBool (Between (Raw ''x'') (VInt 1) (VInt 2))"
    using t by blast
  have b: "GetSQL (And True' (VExpression (Between (Raw ''x'') (VInt 1) (VInt 2)))) noTables
       = Return (''1 AND '' @ ''x'' @ '' BETWEEN 1 AND 2'', None)"
    using t by blast
  show ?thesis
    using x a b by simp
qed

end
